theory Spec2Isabelle
  imports
    Main
    "HOL-Library.Multiset"
    "HOL-Library.Sublist"
    "HOL-Library.Char_ord"
    "HOL-Library.List_Lexorder"
begin

section \<open>WebSheet: a shallow embedding of \<^verbatim>\<open>src/index.js\<close>\<close>

text \<open>
  The class \<^verbatim>\<open>WebSheet\<close> keeps the rows fetched from a spreadsheet, a list of
  filter callbacks, the bound select inputs and an optional sort configuration, and
  renders the filtered and sorted rows through a template. The embedding follows the
  current class (the first one in \<^verbatim>\<open>src/index.js\<close>); the older variant in the
  same file has no sorting and no error callback.

  A thrown exception is a value of type \<open>error\<close>; a method that mutates \<^verbatim>\<open>this\<close>
  or the page returns the state it leaves behind, together with the exception if it threw.
\<close>

subsection \<open>Strings of the host language\<close>

text \<open>
  Strings are lists of 8-bit characters, read as the code units U+0000 to U+00FF.
  \<^verbatim>\<open>String.prototype.trim\<close> strips white space and line terminators; in that range
  these are TAB, LF, VT, FF, CR, SPACE and NBSP.
\<close>

definition isWhiteSpace :: "char \<Rightarrow> bool" where
  "isWhiteSpace c \<longleftrightarrow> (of_char c :: nat) \<in> {9, 10, 11, 12, 13, 32, 160}"

definition str_trim :: "string \<Rightarrow> string" where
  "str_trim s = rev (dropWhile isWhiteSpace (rev (dropWhile isWhiteSpace s)))"

text \<open>
  \<^verbatim>\<open>String.prototype.toLowerCase\<close> on the same range: the letters A to Z and the
  Latin-1 capitals U+00C0 to U+00DE (without the multiplication sign U+00D7) move up by 32.
\<close>

definition toLowerChar :: "char \<Rightarrow> char" where
  "toLowerChar c =
     (let n = (of_char c :: nat)
      in if (65 \<le> n \<and> n \<le> 90) \<or> (192 \<le> n \<and> n \<le> 222 \<and> n \<noteq> 215)
         then char_of (n + 32) else c)"

definition str_toLowerCase :: "string \<Rightarrow> string" where
  "str_toLowerCase s = map toLowerChar s"

text \<open>\<^verbatim>\<open>s.includes(t)\<close>: \<open>t\<close> occurs in \<open>s\<close> as a contiguous substring.\<close>

fun str_includes :: "string \<Rightarrow> string \<Rightarrow> bool" where
  "str_includes [] t = (t = [])"
| "str_includes (c # cs) t = (prefix t (c # cs) \<or> str_includes cs t)"

text \<open>
  \<^verbatim>\<open>s.split(sep)\<close> with a string separator. The scan goes left to right; at an
  occurrence of the separator the segment read so far is closed and the scan resumes
  behind the separator. The empty separator splits into single code units.
\<close>

function splitOn :: "string \<Rightarrow> string \<Rightarrow> string \<Rightarrow> string list" where
  "splitOn sep cur [] = [cur]"
| "splitOn sep cur (c # cs) =
     (if sep \<noteq> [] \<and> prefix sep (c # cs)
      then cur # splitOn sep [] (drop (length sep) (c # cs))
      else splitOn sep (cur @ [c]) cs)"
  by pat_completeness auto
termination
  by (relation "measure (\<lambda>(sep, cur, s). length s)") (auto simp: neq_Nil_conv)

definition str_split :: "string \<Rightarrow> string \<Rightarrow> string list" where
  "str_split s sep = (if sep = [] then map (\<lambda>c. [c]) s else splitOn sep [] s)"

subsection \<open>Errors, rows and filter callbacks\<close>

text \<open>
  \<open>Error msg\<close> is \<^verbatim>\<open>new Error(msg)\<close>; \<open>TypeError\<close> is what the engine throws when
  a property of \<^verbatim>\<open>undefined\<close> is read or a method of \<^verbatim>\<open>undefined\<close> is called.
\<close>

datatype error = Error string | TypeError

text \<open>
  A row is the \<^verbatim>\<open>cells\<close> object of a response row: a mapping from column label to
  the cell's string. \<open>r l = None\<close> stands for \<^verbatim>\<open>r[l] === undefined\<close>.
\<close>

type_synonym row = "string \<rightharpoonup> string"

subsection \<open>Header-row removal in \<^verbatim>\<open>sheetrockCallback\<close>\<close>

text \<open>
  \<^verbatim>\<open>response.rows.map(r => r.cells).filter(r => this.options.labels.every(l => l !== r[l]))\<close>
\<close>

definition keepRow :: "string list \<Rightarrow> row \<Rightarrow> bool" where
  "keepRow ls r = list_all (\<lambda>l. Some l \<noteq> r l) ls"

definition loadRows :: "string list \<Rightarrow> row list \<Rightarrow> row list" where
  "loadRows ls response = filter (keepRow ls) response"

subsection \<open>The page: controls, output nodes, console\<close>

text \<open>
  A control is a text input or a single-selection drop-down. \<open>el_value\<close> is what
  \<^verbatim>\<open>element.value\<close> reads, \<open>el_options\<close> is \<^verbatim>\<open>element.options\<close>, each option with
  its \<^verbatim>\<open>value\<close> and its content. The content is kept as the string the class
  assigns and the property it assigns it to: the browser parses a string assigned to
  \<^verbatim>\<open>innerHTML\<close> as markup and shows a string assigned to \<^verbatim>\<open>innerText\<close> as it is.
  Controls and output nodes are addressed by identifiers, so that two registrations of
  one element share its state.
\<close>

datatype option_content = InnerHTML string | InnerText string

record html_option =
  option_value :: string
  option_content :: option_content

record control =
  el_value :: string
  el_options :: "html_option list"

record page =
  controls :: "nat \<Rightarrow> control"
  content :: "nat \<Rightarrow> string"
  console :: "error list"

text \<open>
  The operations of a drop-down that the class uses. Removing every child leaves no
  option selected, and the value reads as the empty string. Appending an option to a
  drop-down with no option selects it. Assigning the value selects the option that
  carries it, and no option when none does.
\<close>

definition removeChildren :: "control \<Rightarrow> control" where
  "removeChildren el = el\<lparr>el_value := [], el_options := []\<rparr>"

definition appendChild :: "html_option \<Rightarrow> control \<Rightarrow> control" where
  "appendChild opt el =
     el\<lparr>el_value := (if el_options el = [] then option_value opt else el_value el),
        el_options := el_options el @ [opt]\<rparr>"

definition set_value :: "string \<Rightarrow> control \<Rightarrow> control" where
  "set_value v el =
     el\<lparr>el_value := (if v \<in> option_value ` set (el_options el) then v else [])\<rparr>"

definition console_error :: "error \<Rightarrow> page \<Rightarrow> page" where
  "console_error e p = p\<lparr>console := console p @ [e]\<rparr>"

subsection \<open>The types of the class\<close>

text \<open>
  A filter callback maps an array of rows to an array of rows. The built-in filters read
  the current value of their control when they run, so a callback also reads the page;
  it may throw.
\<close>

type_synonym webSheetFilterCallback = "page \<Rightarrow> row list \<Rightarrow> error + row list"

record webSheetInput =
  element :: nat
  column :: string
  deliminator :: "string option"

record webSheetSort =
  label :: string
  compare :: "row \<Rightarrow> row \<Rightarrow> int"

record webSheetSorting =
  sorting_element :: nat
  sorting_options :: "webSheetSort list"

text \<open>
  \<^verbatim>\<open>options.template\<close> is a function, an element whose \<^verbatim>\<open>innerHTML\<close> is the
  template source, or the source itself.
\<close>

datatype template_source =
    TemplateFunction "row \<Rightarrow> string"
  | TemplateElement string
  | TemplateString string

text \<open>A field of the options object is \<open>None\<close> when it is \<^verbatim>\<open>null\<close> or absent.\<close>

record webSheetOptions =
  sheet :: "string option"
  template :: "template_source option"
  "output" :: "nat option"
  query :: "string option"
  labels :: "string list option"
  errorCallback :: "(error \<Rightarrow> page \<Rightarrow> page) option"

text \<open>
  The instance. \<open>rows\<close> and \<open>sorting\<close> are not assigned by the constructor and stay
  \<^verbatim>\<open>undefined\<close> (\<open>None\<close>) until \<^verbatim>\<open>sheetrockCallback\<close> and \<^verbatim>\<open>setSortSelect\<close> run.
\<close>

record webSheet =
  options :: webSheetOptions
  filters :: "webSheetFilterCallback list"
  inputs :: "webSheetInput list"
  this_template :: "row \<Rightarrow> string"
  this_errorCallback :: "error \<Rightarrow> page \<Rightarrow> page"
  rows :: "row list option"
  sorting :: "webSheetSorting option"

subsection \<open>The constructor\<close>

text \<open>
  The four checks are made in the order of the source; \<^verbatim>\<open>options.output\<close> is not
  looked at. \<^verbatim>\<open>Handlebars.compile\<close> belongs to the template library and is a parameter.
\<close>

definition constructor ::
  "(string \<Rightarrow> row \<Rightarrow> string) \<Rightarrow> webSheetOptions \<Rightarrow> error + webSheet" where
  "constructor handlebars_compile opts =
     (if sheet opts = None then Inl (Error ''WebSheet: Provide a Google Sheet URL'')
      else if template opts = None then Inl (Error ''WebSheet: Provide a Handlebars template'')
      else if query opts = None then Inl (Error ''WebSheet: Provide a query'')
      else if labels opts = None
        then Inl (Error ''WebSheet: Provide a list of labels for your selected rows'')
      else Inr \<lparr>
        options = opts,
        filters = [],
        inputs = [],
        this_template =
          (case the (template opts) of
             TemplateFunction f \<Rightarrow> f
           | TemplateElement innerHTML \<Rightarrow> handlebars_compile innerHTML
           | TemplateString src \<Rightarrow> handlebars_compile src),
        this_errorCallback =
          (case errorCallback opts of Some cb \<Rightarrow> cb | None \<Rightarrow> console_error),
        rows = None,
        sorting = None\<rparr>)"

subsection \<open>\<^verbatim>\<open>createFilter\<close>\<close>

text \<open>
  The argument of \<^verbatim>\<open>createFilter\<close> is any value of the language; only
  \<open>JSFunction\<close> has \<^verbatim>\<open>typeof v === 'function'\<close>.
\<close>

datatype jsvalue =
    JSUndefined
  | JSNull
  | JSBoolean bool
  | JSNumber int
  | JSString string
  | JSObject
  | JSFunction webSheetFilterCallback

fun is_function :: "jsvalue \<Rightarrow> bool" where
  "is_function (JSFunction f) = True"
| "is_function v = False"

fun createFilter :: "jsvalue \<Rightarrow> webSheet \<Rightarrow> error option \<times> webSheet" where
  "createFilter (JSFunction filterFunction) w =
     (None, w\<lparr>filters := filters w @ [filterFunction]\<rparr>)"
| "createFilter v w =
     (Some (Error ''WebSheet(addSearchFilter): Provide a valid HTML text input''), w)"

subsection \<open>Arrays of the host language\<close>

text \<open>
  \<^verbatim>\<open>Array.prototype.filter\<close> with a callback that may throw: the elements are visited
  from the front, and the first exception ends the call.
\<close>

fun array_filter :: "('a \<Rightarrow> error + bool) \<Rightarrow> 'a list \<Rightarrow> error + 'a list" where
  "array_filter cb [] = Inr []"
| "array_filter cb (x # xs) =
     (case cb x of
        Inl e \<Rightarrow> Inl e
      | Inr keep \<Rightarrow>
          (case array_filter cb xs of
             Inl e \<Rightarrow> Inl e
           | Inr ys \<Rightarrow> Inr (if keep then x # ys else ys)))"

text \<open>
  \<^verbatim>\<open>Array.prototype.sort(comparefn)\<close> is a stable sort: an insertion sort that puts
  an element in front of the first element it does not rank above, run from the back of
  the array, keeps elements that rank equal in the order they came.
\<close>

fun insert_by :: "('a \<Rightarrow> 'a \<Rightarrow> int) \<Rightarrow> 'a \<Rightarrow> 'a list \<Rightarrow> 'a list" where
  "insert_by cmp x [] = [x]"
| "insert_by cmp x (y # ys) =
     (if cmp x y \<le> 0 then x # y # ys else y # insert_by cmp x ys)"

definition array_sort :: "('a \<Rightarrow> 'a \<Rightarrow> int) \<Rightarrow> 'a list \<Rightarrow> 'a list" where
  "array_sort cmp xs = foldr (insert_by cmp) xs []"

text \<open>
  A \<^verbatim>\<open>Set\<close> keeps its elements in insertion order, each once. Spreading it and
  calling \<^verbatim>\<open>sort()\<close> without a comparator orders the strings by their code units and
  puts \<^verbatim>\<open>undefined\<close> last.
\<close>

definition set_add :: "'a \<Rightarrow> 'a list \<Rightarrow> 'a list" where
  "set_add x s = (if x \<in> set s then s else s @ [x])"

definition sort_default :: "string option list \<Rightarrow> string option list" where
  "sort_default xs =
     map Some (sort (List.map_filter (\<lambda>x. x) xs)) @ filter (\<lambda>x. x = None) xs"

text \<open>Assigning \<^verbatim>\<open>undefined\<close> to a string attribute stores the string "undefined".\<close>

definition ToString :: "string option \<Rightarrow> string" where
  "ToString v = (case v of Some s \<Rightarrow> s | None \<Rightarrow> ''undefined'')"

subsection \<open>\<^verbatim>\<open>filteredRows\<close>\<close>

text \<open>The loop over \<^verbatim>\<open>this.filters\<close>: each filter receives what the one before returned.\<close>

fun runFilters :: "webSheetFilterCallback list \<Rightarrow> page \<Rightarrow> row list \<Rightarrow> error + row list" where
  "runFilters [] p filteredRows = Inr filteredRows"
| "runFilters (f # fs) p filteredRows =
     (case f p filteredRows of
        Inl e \<Rightarrow> Inl e
      | Inr filteredRows' \<Rightarrow> runFilters fs p filteredRows')"

text \<open>
  The sort step. \<^verbatim>\<open>find\<close> returns \<^verbatim>\<open>undefined\<close> when no option carries the
  label, and reading \<^verbatim>\<open>sortFunc.compare\<close> then throws.
\<close>

definition sortRows :: "webSheetSorting option \<Rightarrow> page \<Rightarrow> row list \<Rightarrow> error + row list" where
  "sortRows srt p filteredRows =
     (case srt of
        None \<Rightarrow> Inr filteredRows
      | Some s \<Rightarrow>
          (let userSort = el_value (controls p (sorting_element s))
           in case find (\<lambda>v. label v = userSort) (sorting_options s) of
                None \<Rightarrow> Inl TypeError
              | Some sortFunc \<Rightarrow> Inr (array_sort (compare sortFunc) filteredRows)))"

text \<open>
  The getter, for an instance that has fetched its rows. Before the first fetch
  \<^verbatim>\<open>this.rows\<close> is \<^verbatim>\<open>undefined\<close>, which is not an array and so not an argument of
  a filter callback of the model. There the source's getter hands \<^verbatim>\<open>undefined\<close>
  through every filter that returns its argument, and throws a \<open>TypeError\<close> where a
  filter or the spread of the sort step reads it as an array; its only caller, the loop
  of \<^verbatim>\<open>populateResults\<close>, throws a \<open>TypeError\<close> on \<^verbatim>\<open>undefined\<close>. The model
  gives the getter the value the render ends with, \<open>Inl TypeError\<close>. Every property
  below is about \<open>rows w = Some rs\<close>.
\<close>

definition filteredRows :: "webSheet \<Rightarrow> page \<Rightarrow> error + row list" where
  "filteredRows w p =
     (case rows w of
        None \<Rightarrow> Inl TypeError
      | Some rs \<Rightarrow>
          (case runFilters (filters w) p rs of
             Inl e \<Rightarrow> Inl e
           | Inr frs \<Rightarrow> sortRows (sorting w) p frs))"

subsection \<open>\<^verbatim>\<open>populateInputs\<close>\<close>

text \<open>The inner loops, which fill the \<^verbatim>\<open>Set\<close> of option values from the rows.\<close>

fun collectOptions ::
  "string \<Rightarrow> string option \<Rightarrow> row list \<Rightarrow> string option list \<Rightarrow> error + string option list" where
  "collectOptions col delim [] opts = Inr opts"
| "collectOptions col delim (r # rs) opts =
     (case delim of
        None \<Rightarrow> collectOptions col delim rs (set_add (r col) opts)
      | Some d \<Rightarrow>
          (case r col of
             None \<Rightarrow> Inl TypeError
           | Some cell \<Rightarrow>
               collectOptions col delim rs
                 (fold (\<lambda>v. set_add (Some (str_trim v))) (str_split cell d) opts)))"

definition makeOption :: "string option \<Rightarrow> html_option" where
  "makeOption o' =
     \<lparr>option_value = ToString o',
      option_content = InnerHTML (if o' = Some [] then ''Not specified'' else ToString o')\<rparr>"

text \<open>The body of the loop over \<^verbatim>\<open>this.inputs\<close>, for one bound input.\<close>

definition populateInput :: "row list option \<Rightarrow> webSheetInput \<Rightarrow> page \<Rightarrow> error option \<times> page" where
  "populateInput rws inp p =
     (let el = controls p (element inp);
          selectionBackup = (if el_options el = [] then ''Any'' else el_value el)
      in case rws of
           None \<Rightarrow> (Some TypeError, p)
         | Some rs \<Rightarrow>
             (case collectOptions (column inp) (deliminator inp) rs [] of
                Inl e \<Rightarrow> (Some e, p)
              | Inr opts \<Rightarrow>
                  (let optArray = Some ''Any'' # sort_default opts;
                       filled = fold (\<lambda>o'. appendChild (makeOption o')) optArray (removeChildren el);
                       final =
                         (if find (\<lambda>o'. option_value o' = selectionBackup) (el_options filled) = None
                          then set_value ''Any'' filled
                          else set_value selectionBackup filled)
                   in (None, p\<lparr>controls := (controls p)(element inp := final)\<rparr>))))"

fun populateInputsLoop :: "row list option \<Rightarrow> webSheetInput list \<Rightarrow> page \<Rightarrow> error option \<times> page" where
  "populateInputsLoop rws [] p = (None, p)"
| "populateInputsLoop rws (inp # inps) p =
     (case populateInput rws inp p of
        (Some e, p') \<Rightarrow> (Some e, p')
      | (None, p') \<Rightarrow> populateInputsLoop rws inps p')"

definition populateInputs :: "webSheet \<Rightarrow> page \<Rightarrow> error option \<times> page" where
  "populateInputs w p = populateInputsLoop (rows w) (inputs w) p"

subsection \<open>\<^verbatim>\<open>populateResults\<close> and \<^verbatim>\<open>sheetrockCallback\<close>\<close>

definition populateResults :: "webSheet \<Rightarrow> page \<Rightarrow> error option \<times> page" where
  "populateResults w p =
     (case filteredRows w p of
        Inl e \<Rightarrow> (Some e, p)
      | Inr rs \<Rightarrow>
          (let newInner = concat (map (this_template w) rs)
           in case output (options w) of
                None \<Rightarrow> (Some TypeError, p)
              | Some out \<Rightarrow> (None, p\<lparr>content := (content p)(out := newInner)\<rparr>)))"

text \<open>
  \<open>err\<close> and \<open>response\<close> are what the fetch library hands over; \<open>response\<close> is the list
  of the \<^verbatim>\<open>cells\<close> objects of \<^verbatim>\<open>response.rows\<close>.
\<close>

definition sheetrockCallback ::
  "error option \<Rightarrow> row list \<Rightarrow> webSheet \<Rightarrow> page \<Rightarrow> error option \<times> webSheet \<times> page" where
  "sheetrockCallback err response w p =
     (case err of
        Some e \<Rightarrow> (None, w, this_errorCallback w e p)
      | None \<Rightarrow>
          (case labels (options w) of
             None \<Rightarrow> (Some TypeError, w, p)
           | Some ls \<Rightarrow>
               (let w' = w\<lparr>rows := Some (loadRows ls response)\<rparr>
                in case populateInputs w' p of
                     (Some e, p') \<Rightarrow> (Some e, w', p')
                   | (None, p') \<Rightarrow>
                       (case populateResults w' p' of (res, p'') \<Rightarrow> (res, w', p'')))))"

subsection \<open>The built-in filters and the sort select\<close>

text \<open>
  The callback that \<^verbatim>\<open>selectColumnFilter\<close> registers. A row without the column has
  \<^verbatim>\<open>row[column] === undefined\<close>: the comparison with the selected value is false, the
  call of \<^verbatim>\<open>split\<close> throws.
\<close>

definition columnFilter :: "nat \<Rightarrow> string \<Rightarrow> string option \<Rightarrow> webSheetFilterCallback" where
  "columnFilter el col separator p rws =
     (let selectedValue = el_value (controls p el)
      in if selectedValue = ''Any'' then Inr rws
         else case separator of
                None \<Rightarrow> Inr (filter (\<lambda>r. r col = Some selectedValue) rws)
              | Some sep \<Rightarrow>
                  array_filter
                    (\<lambda>r. case r col of
                           None \<Rightarrow> Inl TypeError
                         | Some cell \<Rightarrow>
                             Inr (find (\<lambda>v. str_trim v = selectedValue) (str_split cell sep) \<noteq> None))
                    rws)"

text \<open>
  Listeners are not part of the state: an event on a control is a call of
  \<open>populateResults\<close> on the page that holds the control's new value.
\<close>

definition selectColumnFilter ::
  "nat \<Rightarrow> string \<Rightarrow> string option \<Rightarrow> webSheet \<Rightarrow> error option \<times> webSheet" where
  "selectColumnFilter el col separator w =
     (case createFilter (JSFunction (columnFilter el col separator)) w of
        (Some e, w') \<Rightarrow> (Some e, w')
      | (None, w') \<Rightarrow>
          (None, w'\<lparr>inputs := inputs w' @
             [\<lparr>element = el, column = col, deliminator = separator\<rparr>]\<rparr>))"

text \<open>
  The callback that \<^verbatim>\<open>searchFilter\<close> registers. \<^verbatim>\<open>findIndex\<close> visits the columns in
  order and stops at the first one that contains the search string; on the way a missing
  cell throws at \<^verbatim>\<open>r[col].toLowerCase()\<close>.
\<close>

fun searchColumns :: "string \<Rightarrow> row \<Rightarrow> string list \<Rightarrow> error + bool" where
  "searchColumns searchString r [] = Inr False"
| "searchColumns searchString r (col # cols) =
     (case r col of
        None \<Rightarrow> Inl TypeError
      | Some cell \<Rightarrow>
          if str_includes (str_toLowerCase cell) searchString then Inr True
          else searchColumns searchString r cols)"

definition searchCallback :: "nat \<Rightarrow> string list \<Rightarrow> webSheetFilterCallback" where
  "searchCallback el cols p rws =
     (let searchString = str_toLowerCase (str_trim (el_value (controls p el)))
      in if searchString = [] then Inr rws
         else array_filter (\<lambda>r. searchColumns searchString r cols) rws)"

definition searchFilter :: "nat \<Rightarrow> string list \<Rightarrow> webSheet \<Rightarrow> error option \<times> webSheet" where
  "searchFilter el cols w = createFilter (JSFunction (searchCallback el cols)) w"

definition setSortSelect :: "nat \<Rightarrow> webSheetSort list \<Rightarrow> webSheet \<Rightarrow> page \<Rightarrow> webSheet \<times> page" where
  "setSortSelect el opts w p =
     (w\<lparr>sorting := Some \<lparr>sorting_element = el, sorting_options = opts\<rparr>\<rparr>,
      p\<lparr>controls := (controls p)(el :=
          fold (\<lambda>srt. appendChild \<lparr>option_value = label srt, option_content = InnerText (label srt)\<rparr>)
            opts (controls p el))\<rparr>)"

subsection \<open>Notions of the specification\<close>

text \<open>
  A comparator is consistent when it ranks every two rows one way or the other and its
  ranking is transitive. The language defines the order that
  \<^verbatim>\<open>Array.prototype.sort\<close> produces for consistent comparators only.
\<close>

definition consistent_comparator :: "('a \<Rightarrow> 'a \<Rightarrow> int) \<Rightarrow> bool" where
  "consistent_comparator cmp \<longleftrightarrow>
     (\<forall>a b. cmp a b < 0 \<longleftrightarrow> 0 < cmp b a) \<and>
     (\<forall>a b c. cmp a b \<le> 0 \<and> cmp b c \<le> 0 \<longrightarrow> cmp a c \<le> 0)"

text \<open>
  The column values of the specification's option synchronizer, in its words: the whole
  cell when there is no delimiter, else every trimmed split segment, over all rows.
\<close>

definition rowValues :: "string \<Rightarrow> string option \<Rightarrow> row \<Rightarrow> string list" where
  "rowValues col delim r =
     (case r col of
        None \<Rightarrow> []
      | Some cell \<Rightarrow>
          (case delim of None \<Rightarrow> [cell] | Some d \<Rightarrow> map str_trim (str_split cell d)))"

definition columnValues :: "string \<Rightarrow> string option \<Rightarrow> row list \<Rightarrow> string list" where
  "columnValues col delim rs = concat (map (rowValues col delim) rs)"

subsection \<open>Example states\<close>

text \<open>A page on which every control reads \<open>v\<close> and offers the options \<open>opts\<close>.\<close>

definition examplePage :: "string \<Rightarrow> html_option list \<Rightarrow> page" where
  "examplePage v opts =
     \<lparr>controls = (\<lambda>i. \<lparr>el_value = v, el_options = opts\<rparr>),
      content = (\<lambda>i. []),
      console = []\<rparr>"

definition exampleOptions :: webSheetOptions where
  "exampleOptions =
     \<lparr>sheet = Some ''https://docs.google.com/spreadsheets/d/1'',
      template = Some (TemplateFunction (\<lambda>r. case r ''name'' of Some s \<Rightarrow> s | None \<Rightarrow> [])),
      output = Some 0,
      query = Some ''select A,B'',
      labels = Some [''name'', ''dept''],
      errorCallback = None\<rparr>"

text \<open>The instance the constructor builds from \<open>exampleOptions\<close>, after a fetch of \<open>rs\<close>.\<close>

definition exampleSheet :: "row list \<Rightarrow> webSheet" where
  "exampleSheet rs =
     \<lparr>options = exampleOptions,
      filters = [],
      inputs = [],
      this_template = (\<lambda>r. case r ''name'' of Some s \<Rightarrow> s | None \<Rightarrow> []),
      this_errorCallback = console_error,
      rows = Some rs,
      sorting = None\<rparr>"

text \<open>A comparator on the length of the \<open>name\<close> cell, and a sort select that offers it.\<close>

definition byNameLength :: "row \<Rightarrow> row \<Rightarrow> int" where
  "byNameLength a b =
     int (length (case a ''name'' of Some s \<Rightarrow> s | None \<Rightarrow> [])) -
     int (length (case b ''name'' of Some s \<Rightarrow> s | None \<Rightarrow> []))"

definition exampleSorting :: webSheetSorting where
  "exampleSorting =
     \<lparr>sorting_element = 1,
      sorting_options = [\<lparr>label = ''Name'', compare = byNameLength\<rparr>]\<rparr>"

text \<open>Rows with one cell.\<close>

definition nameRow :: "string \<Rightarrow> row" where
  "nameRow s = [''name'' \<mapsto> s]"

definition tagRow :: "string \<Rightarrow> row" where
  "tagRow s = [''tag'' \<mapsto> s]"

definition tagInput :: "string option \<Rightarrow> webSheetInput" where
  "tagInput delim = \<lparr>element = 0, column = ''tag'', deliminator = delim\<rparr>"

section \<open>Properties\<close>

subsection \<open>Header-row removal\<close>

lemma keepRow_iff: "keepRow ls r \<longleftrightarrow> (\<forall>l \<in> set ls. r l \<noteq> Some l)"
  by (auto simp: keepRow_def list_all_iff)

text \<open>A fetched row is dropped as soon as one of its cells repeats its own label.\<close>

lemma loadRows_excludes_iff:
  "r \<in> set response \<Longrightarrow>
   r \<notin> set (loadRows ls response) \<longleftrightarrow> (\<exists>l \<in> set ls. r l = Some l)"
  by (auto simp: loadRows_def keepRow_iff)

lemma sheetrockCallback_rows:
  "labels (options w) = Some ls \<Longrightarrow>
   rows (fst (snd (sheetrockCallback None response w p))) = Some (loadRows ls response)"
  by (simp add: sheetrockCallback_def Let_def split: prod.splits option.splits)

text \<open>
  Claim C1. The claim: a fetched row is dropped exactly when every label's cell equals
  the label, so a row in which only some cells repeat their label is kept. The code at
  the labels \<open>name\<close>, \<open>dept\<close>: the row whose \<open>name\<close> cell is "name" and whose
  \<open>dept\<close> cell is "Sales" is dropped, although its \<open>dept\<close> cell does not repeat the
  label, and \<open>rows\<close> is empty after the callback. The two rows the specification names
  behave as it says: the full header row is dropped, the row of Alice is kept.
\<close>

theorem loadRows_drops_partial_header_match:
  "loadRows [''name'', ''dept''] [[''name'' \<mapsto> ''name'', ''dept'' \<mapsto> ''Sales'']] = [] \<and>
   rows (fst (snd (sheetrockCallback None [[''name'' \<mapsto> ''name'', ''dept'' \<mapsto> ''Sales'']]
     (exampleSheet []) (examplePage [] [])))) = Some [] \<and>
   loadRows [''name'', ''dept''] [[''name'' \<mapsto> ''name'', ''dept'' \<mapsto> ''dept'']] = [] \<and>
   loadRows [''name'', ''dept''] [[''name'' \<mapsto> ''Alice'', ''dept'' \<mapsto> ''name'']]
     = [[''name'' \<mapsto> ''Alice'', ''dept'' \<mapsto> ''name'']]"
  by (simp add: sheetrockCallback_rows exampleSheet_def exampleOptions_def loadRows_def keepRow_def)

subsection \<open>Construction\<close>

text \<open>
  Claim C4, as amended. An options object that lacks \<open>sheet\<close>, \<open>template\<close>, \<open>query\<close>
  or \<open>labels\<close> is refused with the message of the first of these fields, in this
  order, that is missing; the four messages differ. When the four are present the
  constructor returns an instance, whatever \<open>output\<close> is.
\<close>

theorem constructor_checks_in_order:
  "(sheet opts = None \<longrightarrow>
      constructor hc opts = Inl (Error ''WebSheet: Provide a Google Sheet URL'')) \<and>
   (sheet opts \<noteq> None \<and> template opts = None \<longrightarrow>
      constructor hc opts = Inl (Error ''WebSheet: Provide a Handlebars template'')) \<and>
   (sheet opts \<noteq> None \<and> template opts \<noteq> None \<and> query opts = None \<longrightarrow>
      constructor hc opts = Inl (Error ''WebSheet: Provide a query'')) \<and>
   (sheet opts \<noteq> None \<and> template opts \<noteq> None \<and> query opts \<noteq> None \<and> labels opts = None \<longrightarrow>
      constructor hc opts =
        Inl (Error ''WebSheet: Provide a list of labels for your selected rows'')) \<and>
   (sheet opts \<noteq> None \<and> template opts \<noteq> None \<and> query opts \<noteq> None \<and> labels opts \<noteq> None \<longrightarrow>
      (\<exists>w. constructor hc opts = Inr w \<and> options w = opts \<and> filters w = [] \<and> inputs w = []))"
  by (simp add: constructor_def)

text \<open>
  One options object for each of the five cases; where several fields are missing, the
  error is the one of the first in the order of the checks.
\<close>

theorem constructor_checks_in_order_witness:
  "constructor (\<lambda>src r. src) (exampleOptions\<lparr>sheet := None, template := None\<rparr>)
     = Inl (Error ''WebSheet: Provide a Google Sheet URL'') \<and>
   constructor (\<lambda>src r. src) (exampleOptions\<lparr>template := None, labels := None\<rparr>)
     = Inl (Error ''WebSheet: Provide a Handlebars template'') \<and>
   constructor (\<lambda>src r. src) (exampleOptions\<lparr>query := None, labels := None\<rparr>)
     = Inl (Error ''WebSheet: Provide a query'') \<and>
   constructor (\<lambda>src r. src) (exampleOptions\<lparr>labels := None\<rparr>)
     = Inl (Error ''WebSheet: Provide a list of labels for your selected rows'') \<and>
   (\<exists>w. constructor (\<lambda>src r. src) (exampleOptions\<lparr>output := None\<rparr>) = Inr w \<and>
        options w = exampleOptions\<lparr>output := None\<rparr> \<and> filters w = [] \<and> inputs w = [])"
  using
    constructor_checks_in_order [of "exampleOptions\<lparr>sheet := None, template := None\<rparr>" "\<lambda>src r. src"]
    constructor_checks_in_order [of "exampleOptions\<lparr>template := None, labels := None\<rparr>" "\<lambda>src r. src"]
    constructor_checks_in_order [of "exampleOptions\<lparr>query := None, labels := None\<rparr>" "\<lambda>src r. src"]
    constructor_checks_in_order [of "exampleOptions\<lparr>labels := None\<rparr>" "\<lambda>src r. src"]
    constructor_checks_in_order [of "exampleOptions\<lparr>output := None\<rparr>" "\<lambda>src r. src"]
  by (simp add: exampleOptions_def)

text \<open>
  Claim C4 as stated fails for \<open>output\<close>: with \<open>output\<close> missing and the other four
  fields present, construction succeeds.
\<close>

theorem constructor_accepts_missing_output:
  "constructor (\<lambda>src r. src)
     \<lparr>sheet = Some ''https://example.org/sheet'', template = Some (TemplateString ''{{name}}''),
      output = None, query = Some ''select A'', labels = Some [''name''],
      errorCallback = None\<rparr>
   = Inr \<lparr>options =
         \<lparr>sheet = Some ''https://example.org/sheet'', template = Some (TemplateString ''{{name}}''),
          output = None, query = Some ''select A'', labels = Some [''name''],
          errorCallback = None\<rparr>,
       filters = [], inputs = [], this_template = (\<lambda>r. ''{{name}}''),
       this_errorCallback = console_error, rows = None, sorting = None\<rparr>"
  by (simp add: constructor_def)

subsection \<open>Registering filters\<close>

text \<open>
  Claim C5. Registering a value that is not a function throws an \<open>Error\<close> in the call
  itself and leaves the instance, and with it the list of registered filters, as it was.
\<close>

theorem createFilter_rejects_non_function:
  "\<not> is_function v \<Longrightarrow>
   createFilter v w =
     (Some (Error ''WebSheet(addSearchFilter): Provide a valid HTML text input''), w) \<and>
   filters (snd (createFilter v w)) = filters w"
  by (cases v) simp_all

theorem createFilter_rejects_non_function_witness:
  "\<not> is_function (JSString ''name'') \<and>
   createFilter (JSString ''name'') (exampleSheet []) =
     (Some (Error ''WebSheet(addSearchFilter): Provide a valid HTML text input''),
      exampleSheet []) \<and>
   filters (snd (createFilter (JSString ''name'') (exampleSheet []))) = filters (exampleSheet [])"
  using createFilter_rejects_non_function [of "JSString ''name''" "exampleSheet []"]
  by simp

text \<open>A function is accepted and goes to the end of the list.\<close>

lemma createFilter_function:
  "createFilter (JSFunction f) w = (None, w\<lparr>filters := filters w @ [f]\<rparr>)"
  by simp

text \<open>The two built-in registrations hand a function to \<open>createFilter\<close> and so never throw.\<close>

lemma selectColumnFilter_registers:
  "selectColumnFilter el col separator w =
     (None, w\<lparr>filters := filters w @ [columnFilter el col separator],
               inputs := inputs w @ [\<lparr>element = el, column = col, deliminator = separator\<rparr>]\<rparr>)"
  by (simp add: selectColumnFilter_def)

lemma searchFilter_registers:
  "searchFilter el cols w = (None, w\<lparr>filters := filters w @ [searchCallback el cols]\<rparr>)"
  by (simp add: searchFilter_def)

subsection \<open>The filter loop\<close>

lemma runFilters_fold:
  "runFilters fs p R =
     fold (\<lambda>f acc. case acc of Inl e \<Rightarrow> Inl e | Inr rs \<Rightarrow> f p rs) fs (Inr R)"
proof (induction fs arbitrary: R)
  case Nil
  show ?case by simp
next
  case (Cons f fs)
  have stuck: "fold (\<lambda>f acc. case acc of Inl e \<Rightarrow> Inl e | Inr rs \<Rightarrow> f p rs) gs (Inl e) = Inl e"
    for gs :: "webSheetFilterCallback list" and e
    by (induction gs) simp_all
  show ?case
    by (cases "f p R") (simp_all add: Cons.IH stuck)
qed

lemma runFilters_pure:
  "runFilters (map (\<lambda>g p rs. Inr (g rs)) gs) p R = Inr (fold (\<lambda>g rs. g rs) gs R)"
  by (induction gs arbitrary: R) simp_all

text \<open>
  Claim C6. The loop over the registered filters is a left fold in registration order,
  each filter receiving the result of the one before, and an exception of a filter ends
  it. For filters \<open>g1, ..., gn\<close> that do not throw, the result is \<open>gn (... (g1 R))\<close>, and
  so is what the getter returns when no sort select is set; with no filter it is \<open>R\<close>.
\<close>

theorem runFilters_is_left_fold:
  "runFilters fs p R =
     fold (\<lambda>f acc. case acc of Inl e \<Rightarrow> Inl e | Inr rs \<Rightarrow> f p rs) fs (Inr R) \<and>
   runFilters (map (\<lambda>g p rs. Inr (g rs)) gs) p R = Inr (fold (\<lambda>g rs. g rs) gs R) \<and>
   filteredRows (w\<lparr>filters := map (\<lambda>g p rs. Inr (g rs)) gs, rows := Some R, sorting := None\<rparr>) p
     = Inr (fold (\<lambda>g rs. g rs) gs R) \<and>
   runFilters [] p R = Inr R"
  by (simp add: runFilters_fold [symmetric] runFilters_pure filteredRows_def sortRows_def)

subsection \<open>Filtering arrays\<close>

lemma array_filter_result:
  assumes "\<forall>x \<in> set xs. cb x = (if T x then Inl TypeError else Inr (P x))"
  shows "array_filter cb xs = (if \<exists>x \<in> set xs. T x then Inl TypeError else Inr (filter P xs))"
  using assms by (induction xs) auto

lemma find_eq_None_iff: "find P xs = None \<longleftrightarrow> (\<forall>x \<in> set xs. \<not> P x)"
  by (induction xs) simp_all

subsection \<open>The sort step without a matching label\<close>

text \<open>
  Claim C2, as amended. When a sort select is set and its value is the label of no
  registered option, the getter does not return the filtered rows: it throws a
  \<open>TypeError\<close>. The filtered rows come back unchanged, in their order, when no sort
  select is set.
\<close>

theorem filteredRows_no_matching_sort_label:
  "(rows w = Some rs \<and> runFilters (filters w) p rs = Inr frs \<and> sorting w = Some s \<and>
    (\<forall>v \<in> set (sorting_options s). label v \<noteq> el_value (controls p (sorting_element s)))
      \<longrightarrow> filteredRows w p = Inl TypeError) \<and>
   (rows w = Some rs \<and> runFilters (filters w) p rs = Inr frs \<and> sorting w = None
      \<longrightarrow> filteredRows w p = Inr frs)"
  by (simp add: filteredRows_def sortRows_def find_eq_None_iff [symmetric])

theorem filteredRows_no_matching_sort_label_witness:
  "filteredRows ((exampleSheet [nameRow ''bob'', nameRow ''Alice''])\<lparr>sorting := Some exampleSorting\<rparr>)
     (examplePage ''Department'' []) = Inl TypeError \<and>
   filteredRows (exampleSheet [nameRow ''bob'', nameRow ''Alice'']) (examplePage ''Department'' [])
     = Inr [nameRow ''bob'', nameRow ''Alice'']"
  using
    filteredRows_no_matching_sort_label [of
      "(exampleSheet [nameRow ''bob'', nameRow ''Alice''])\<lparr>sorting := Some exampleSorting\<rparr>"
      "[nameRow ''bob'', nameRow ''Alice'']" "examplePage ''Department'' []"
      "[nameRow ''bob'', nameRow ''Alice'']" exampleSorting]
    filteredRows_no_matching_sort_label [of
      "exampleSheet [nameRow ''bob'', nameRow ''Alice'']"
      "[nameRow ''bob'', nameRow ''Alice'']" "examplePage ''Department'' []"
      "[nameRow ''bob'', nameRow ''Alice'']" exampleSorting]
  by (simp add: exampleSheet_def examplePage_def exampleSorting_def)

text \<open>
  Claim C2 as stated fails: with the control reading "Nonexistent" and the one registered
  label "Name", the sort step throws instead of returning the rows.
\<close>

theorem sortRows_nonexistent_label_throws:
  "sortRows (Some exampleSorting) (examplePage ''Nonexistent'' []) [nameRow ''bob'', nameRow ''Alice'']
     = Inl TypeError"
  by (simp add: sortRows_def exampleSorting_def examplePage_def)

subsection \<open>The built-in filters\<close>

lemma searchColumns_error: "searchColumns s r cols = Inl e \<Longrightarrow> e = TypeError"
  by (induction cols) (auto split: option.splits if_splits)

lemma columnFilter_exact:
  "columnFilter el col None p rws =
     Inr (if el_value (controls p el) = ''Any'' then rws
          else filter (\<lambda>r. r col = Some (el_value (controls p el))) rws)"
  by (simp add: columnFilter_def)

lemma columnFilter_Any:
  "el_value (controls p el) = ''Any'' \<Longrightarrow> columnFilter el col separator p rws = Inr rws"
  by (simp add: columnFilter_def)

lemma searchCallback_blank:
  "str_toLowerCase (str_trim (el_value (controls p el))) = [] \<Longrightarrow>
   searchCallback el cols p rws = Inr rws"
  by (simp add: searchCallback_def)

lemma columnFilter_delimited:
  "columnFilter el col (Some sep) p rws =
     (if el_value (controls p el) = ''Any'' then Inr rws
      else if \<exists>r \<in> set rws. r col = None then Inl TypeError
      else Inr (filter (\<lambda>r. \<exists>cell. r col = Some cell \<and>
                  (\<exists>seg \<in> set (str_split cell sep). str_trim seg = el_value (controls p el))) rws))"
proof -
  let ?sel = "el_value (controls p el)"
  let ?cb = "\<lambda>r. case r col of
                None \<Rightarrow> Inl TypeError
              | Some cell \<Rightarrow> Inr (find (\<lambda>v. str_trim v = ?sel) (str_split cell sep) \<noteq> None)"
  have "array_filter ?cb rws =
      (if \<exists>r \<in> set rws. r col = None then Inl TypeError
       else Inr (filter (\<lambda>r. \<exists>cell. r col = Some cell \<and>
                  (\<exists>seg \<in> set (str_split cell sep). str_trim seg = ?sel)) rws))"
    by (rule array_filter_result) (auto simp: find_eq_None_iff split: option.splits)
  then show ?thesis by (simp add: columnFilter_def)
qed

lemma searchColumns_result:
  "searchColumns s r cols =
     (if \<exists>pre c post. cols = pre @ c # post \<and> r c = None \<and>
           (\<forall>c' \<in> set pre. \<exists>cell. r c' = Some cell \<and> \<not> str_includes (str_toLowerCase cell) s)
      then Inl TypeError
      else Inr (\<exists>c \<in> set cols. \<exists>cell. r c = Some cell \<and> str_includes (str_toLowerCase cell) s))"
proof (induction cols)
  case Nil
  show ?case by simp
next
  case (Cons col cols)
  let ?T = "\<lambda>cols. \<exists>pre c post. cols = pre @ c # post \<and> r c = None \<and>
           (\<forall>c' \<in> set pre. \<exists>cell. r c' = Some cell \<and> \<not> str_includes (str_toLowerCase cell) s)"
  show ?case
  proof (cases "r col")
    case None
    then have "?T (col # cols)"
      by (intro exI [of _ "[]"] exI [of _ col] exI [of _ cols]) simp
    with None show ?thesis by simp
  next
    case (Some cell)
    show ?thesis
    proof (cases "str_includes (str_toLowerCase cell) s")
      case True
      have "\<not> ?T (col # cols)"
      proof
        assume "?T (col # cols)"
        then obtain pre c post where d: "col # cols = pre @ c # post" "r c = None"
          "\<forall>c' \<in> set pre. \<exists>cell. r c' = Some cell \<and> \<not> str_includes (str_toLowerCase cell) s"
          by blast
        show False
        proof (cases pre)
          case Nil
          with d(1,2) Some show False by simp
        next
          case (Cons a pre')
          with d(1) have "a = col" by simp
          with d(3) Cons Some True show False by simp
        qed
      qed
      with Some True show ?thesis by auto
    next
      case False
      have "?T (col # cols) \<longleftrightarrow> ?T cols"
      proof
        assume "?T (col # cols)"
        then obtain pre c post where d: "col # cols = pre @ c # post" "r c = None"
          "\<forall>c' \<in> set pre. \<exists>cell. r c' = Some cell \<and> \<not> str_includes (str_toLowerCase cell) s"
          by blast
        show "?T cols"
        proof (cases pre)
          case Nil
          with d(1,2) Some show ?thesis by simp
        next
          case (Cons a pre')
          with d(1) have "cols = pre' @ c # post" by simp
          moreover from d(3) Cons have "\<forall>c' \<in> set pre'. \<exists>cell. r c' = Some cell \<and> \<not> str_includes (str_toLowerCase cell) s"
            by simp
          ultimately show ?thesis using d(2) by blast
        qed
      next
        assume "?T cols"
        then obtain pre c post where d: "cols = pre @ c # post" "r c = None"
          "\<forall>c' \<in> set pre. \<exists>cell. r c' = Some cell \<and> \<not> str_includes (str_toLowerCase cell) s"
          by blast
        have "col # cols = (col # pre) @ c # post" using d(1) by simp
        moreover have "\<forall>c' \<in> set (col # pre). \<exists>cell. r c' = Some cell \<and> \<not> str_includes (str_toLowerCase cell) s"
          using d(3) Some False by simp
        ultimately show "?T (col # cols)" using d(2) by blast
      qed
      with Some False Cons.IH show ?thesis by auto
    qed
  qed
qed

lemma searchCallback_result:
  "searchCallback el cols p rws =
     (if str_toLowerCase (str_trim (el_value (controls p el))) = [] then Inr rws
      else if \<exists>r \<in> set rws. \<exists>pre c post. cols = pre @ c # post \<and> r c = None \<and>
                (\<forall>c' \<in> set pre. \<exists>cell. r c' = Some cell \<and>
                   \<not> str_includes (str_toLowerCase cell)
                       (str_toLowerCase (str_trim (el_value (controls p el)))))
      then Inl TypeError
      else Inr (filter (\<lambda>r. \<exists>c \<in> set cols. \<exists>cell. r c = Some cell \<and>
                  str_includes (str_toLowerCase cell)
                    (str_toLowerCase (str_trim (el_value (controls p el))))) rws))"
proof -
  let ?s = "str_toLowerCase (str_trim (el_value (controls p el)))"
  let ?T = "\<lambda>r. \<exists>pre c post. cols = pre @ c # post \<and> r c = None \<and>
                (\<forall>c' \<in> set pre. \<exists>cell. r c' = Some cell \<and> \<not> str_includes (str_toLowerCase cell) ?s)"
  let ?M = "\<lambda>r. \<exists>c \<in> set cols. \<exists>cell. r c = Some cell \<and> str_includes (str_toLowerCase cell) ?s"
  have af: "array_filter (\<lambda>r. searchColumns ?s r cols) rws =
      (if \<exists>r \<in> set rws. ?T r then Inl TypeError else Inr (filter ?M rws))"
    by (rule array_filter_result) (simp add: searchColumns_result)
  show ?thesis by (simp only: searchCallback_def Let_def af)
qed

text \<open>
  Claim C3, as amended. The column filter without a delimiter never throws, and a row
  without the column does not match a selected value. The column filter with a
  delimiter throws a \<open>TypeError\<close> exactly when its control does not read "Any" and
  some row lacks the column. The search filter throws a \<open>TypeError\<close> exactly when its
  trimmed value is not empty and some row lacks a listed column while every column
  listed before that one has a cell that does not contain the search string: the columns
  are read in order up to the first one that contains it, so a missing column listed
  behind a matching one is never read and the row is kept. In every other case the
  filters return the rows they keep.
\<close>

theorem builtin_filters_on_missing_column:
  "columnFilter el col None p rws =
     Inr (if el_value (controls p el) = ''Any'' then rws
          else filter (\<lambda>r. r col = Some (el_value (controls p el))) rws) \<and>
   columnFilter el col (Some sep) p rws =
     (if el_value (controls p el) = ''Any'' then Inr rws
      else if \<exists>r \<in> set rws. r col = None then Inl TypeError
      else Inr (filter (\<lambda>r. \<exists>cell. r col = Some cell \<and>
                  (\<exists>seg \<in> set (str_split cell sep). str_trim seg = el_value (controls p el))) rws)) \<and>
   searchCallback el cols p rws =
     (if str_toLowerCase (str_trim (el_value (controls p el))) = [] then Inr rws
      else if \<exists>r \<in> set rws. \<exists>pre c post. cols = pre @ c # post \<and> r c = None \<and>
                (\<forall>c' \<in> set pre. \<exists>cell. r c' = Some cell \<and>
                   \<not> str_includes (str_toLowerCase cell)
                       (str_toLowerCase (str_trim (el_value (controls p el)))))
      then Inl TypeError
      else Inr (filter (\<lambda>r. \<exists>c \<in> set cols. \<exists>cell. r c = Some cell \<and>
                  str_includes (str_toLowerCase cell)
                    (str_toLowerCase (str_trim (el_value (controls p el))))) rws))"
  by (intro conjI columnFilter_exact columnFilter_delimited searchCallback_result)

text \<open>
  A row with the one cell \<open>name\<close> = "Alice": the search for "ali" over \<open>name\<close>,
  \<open>dept\<close> keeps it, the same search over \<open>dept\<close>, \<open>name\<close> throws, and so does the
  search for "ob" over \<open>name\<close>, \<open>dept\<close>.
\<close>

theorem builtin_filters_on_missing_column_witness:
  "columnFilter 0 ''dept'' None (examplePage ''Sales'' []) [nameRow ''Alice''] = Inr [] \<and>
   columnFilter 0 ''dept'' (Some '','') (examplePage ''Any'' []) [nameRow ''Alice'']
     = Inr [nameRow ''Alice''] \<and>
   columnFilter 0 ''dept'' (Some '','') (examplePage ''Sales'' []) [nameRow ''Alice'']
     = Inl TypeError \<and>
   searchCallback 0 [''dept''] (examplePage ''  '' []) [nameRow ''Alice''] = Inr [nameRow ''Alice''] \<and>
   searchCallback 0 [''name'', ''dept''] (examplePage ''ali'' []) [nameRow ''Alice'']
     = Inr [nameRow ''Alice''] \<and>
   searchCallback 0 [''dept'', ''name''] (examplePage ''ali'' []) [nameRow ''Alice'']
     = Inl TypeError \<and>
   searchCallback 0 [''name'', ''dept''] (examplePage ''ob'' []) [nameRow ''Alice'']
     = Inl TypeError"
proof -
  let ?T = "\<lambda>s cols. \<exists>pre c post. cols = pre @ c # post \<and> nameRow ''Alice'' c = None \<and>
     (\<forall>c' \<in> set pre. \<exists>cell. nameRow ''Alice'' c' = Some cell \<and>
        \<not> str_includes (str_toLowerCase cell) s)"
  have ali: "str_toLowerCase (str_trim ''ali'') = ''ali''" by code_simp
  have ob: "str_toLowerCase (str_trim ''ob'') = ''ob''" by code_simp
  have blank: "str_toLowerCase (str_trim ''  '') = []" by code_simp
  have hit: "str_includes (str_toLowerCase ''Alice'') ''ali''" by code_simp
  have miss: "\<not> str_includes (str_toLowerCase ''Alice'') ''ob''" by code_simp
  have name: "nameRow ''Alice'' ''name'' = Some ''Alice''" "nameRow ''Alice'' ''dept'' = None"
    by (simp_all add: nameRow_def)
  have kept: "\<not> ?T ''ali'' [''name'', ''dept'']"
  proof
    assume "?T ''ali'' [''name'', ''dept'']"
    then obtain pre c post where d: "[''name'', ''dept''] = pre @ c # post"
      "nameRow ''Alice'' c = None"
      "\<forall>c' \<in> set pre. \<exists>cell. nameRow ''Alice'' c' = Some cell \<and>
         \<not> str_includes (str_toLowerCase cell) ''ali''"
      by blast
    show False
    proof (cases pre)
      case Nil
      with d(1,2) name show False by simp
    next
      case (Cons a pre')
      with d(1) have "a = ''name''" by simp
      with d(3) Cons name hit show False by simp
    qed
  qed
  have reversed: "?T ''ali'' [''dept'', ''name'']"
    using name by (intro exI [of _ "[]"] exI [of _ "''dept''"] exI [of _ "[''name'']"]) simp
  have late: "?T ''ob'' [''name'', ''dept'']"
    using name miss by (intro exI [of _ "[''name'']"] exI [of _ "''dept''"] exI [of _ "[]"]) simp
  note inst = builtin_filters_on_missing_column
    [where el = 0 and col = "''dept''" and rws = "[nameRow ''Alice'']" and sep = "'',''"]
  show ?thesis
    using inst [where p = "examplePage ''Sales'' []" and cols = "[]"]
      inst [where p = "examplePage ''Any'' []" and cols = "[]"]
      inst [where p = "examplePage ''  '' []" and cols = "[''dept'']"]
      inst [where p = "examplePage ''ali'' []" and cols = "[''name'', ''dept'']"]
      inst [where p = "examplePage ''ali'' []" and cols = "[''dept'', ''name'']"]
      inst [where p = "examplePage ''ob'' []" and cols = "[''name'', ''dept'']"]
      ali ob blank hit miss name kept reversed late
    by (simp add: examplePage_def)
qed

text \<open>
  Claim C3 as stated fails: on a row without the filtered column, the search filter with
  the search string "OB" and the delimited column filter with the selection "B" throw.
\<close>

theorem builtin_filters_throw_on_missing_column:
  "searchCallback 0 [''name''] (examplePage ''OB'' []) [tagRow ''x''] = Inl TypeError \<and>
   columnFilter 0 ''name'' (Some '','') (examplePage ''B'' []) [tagRow ''x''] = Inl TypeError"
  by (simp add: searchCallback_def columnFilter_def examplePage_def tagRow_def
      str_toLowerCase_def str_trim_def isWhiteSpace_def)

text \<open>
  Claim C7, as amended. When the control reads "Any" the filter returns the rows as they
  are. Otherwise, without a delimiter it keeps exactly the rows whose cell in the column
  is the selected value, and a row without the cell is not kept; with a delimiter, when
  every row has a cell in the column it keeps exactly the rows one of whose trimmed
  segments is the selected value, and when some row has no cell in the column it
  returns no rows: the call throws a \<open>TypeError\<close>.
\<close>

theorem columnFilter_keeps_matching_rows:
  "columnFilter el col separator p rws =
     (if el_value (controls p el) = ''Any'' then Inr rws
      else case separator of
             None \<Rightarrow> Inr (filter (\<lambda>r. r col = Some (el_value (controls p el))) rws)
           | Some sep \<Rightarrow>
               if \<exists>r \<in> set rws. r col = None then Inl TypeError
               else Inr (filter (\<lambda>r. \<exists>cell. r col = Some cell \<and>
                           (\<exists>seg \<in> set (str_split cell sep).
                              str_trim seg = el_value (controls p el))) rws))"
  by (cases separator) (simp_all add: columnFilter_exact columnFilter_delimited)

theorem columnFilter_keeps_matching_rows_witness:
  "columnFilter 0 ''tag'' (Some '','') (examplePage ''B'' []) [tagRow ''A, B, C'', tagRow ''A, C'']
     = Inr [tagRow ''A, B, C''] \<and>
   columnFilter 0 ''tag'' (Some '','') (examplePage ''Any'' []) [tagRow ''A, B, C'', tagRow ''A, C'']
     = Inr [tagRow ''A, B, C'', tagRow ''A, C''] \<and>
   columnFilter 0 ''tag'' None (examplePage ''B'' []) [tagRow ''B'', tagRow ''b'', tagRow ''A, B, C'']
     = Inr [tagRow ''B''] \<and>
   columnFilter 0 ''tag'' None (examplePage ''B'' []) [nameRow ''B'', tagRow ''B'']
     = Inr [tagRow ''B''] \<and>
   columnFilter 0 ''tag'' (Some '','') (examplePage ''B'' []) [nameRow ''B'', tagRow ''B'']
     = Inl TypeError"
proof -
  have abc: "str_split ''A, B, C'' '','' = [''A'', '' B'', '' C'']"
    by (simp add: str_split_def)
  have ac: "str_split ''A, C'' '','' = [''A'', '' C'']"
    by (simp add: str_split_def)
  have trims: "str_trim ''A'' = ''A''" "str_trim '' B'' = ''B''" "str_trim '' C'' = ''C''"
    by (simp_all add: str_trim_def isWhiteSpace_def)
  note inst = columnFilter_keeps_matching_rows [where el = 0 and col = "''tag''"]
  show ?thesis
    using
      inst [where rws = "[tagRow ''A, B, C'', tagRow ''A, C'']" and separator = "Some '',''"
        and p = "examplePage ''B'' []"]
      inst [where rws = "[tagRow ''A, B, C'', tagRow ''A, C'']" and separator = "Some '',''"
        and p = "examplePage ''Any'' []"]
      inst [where rws = "[tagRow ''B'', tagRow ''b'', tagRow ''A, B, C'']" and separator = None
        and p = "examplePage ''B'' []"]
      inst [where rws = "[nameRow ''B'', tagRow ''B'']" and separator = None
        and p = "examplePage ''B'' []"]
      inst [where rws = "[nameRow ''B'', tagRow ''B'']" and separator = "Some '',''"
        and p = "examplePage ''B'' []"]
    by (simp add: examplePage_def tagRow_def nameRow_def abc ac trims)
qed

text \<open>
  Claim C7 as stated fails: with the delimiter "," and the selection "B", a row without
  the column makes the filter throw, and the row with the segment "B" is not returned.
\<close>

theorem columnFilter_delimited_missing_cell_throws:
  "columnFilter 0 ''tag'' (Some '','') (examplePage ''B'' []) [tagRow ''A, B, C'', nameRow ''Alice'']
     = Inl TypeError"
  by (simp add: columnFilter_def examplePage_def tagRow_def nameRow_def str_split_def
      str_trim_def isWhiteSpace_def)

subsection \<open>The sort step with a matching label\<close>

lemma consistent_anti:
  "consistent_comparator cmp \<Longrightarrow> cmp a b < 0 \<longleftrightarrow> 0 < cmp b a"
  unfolding consistent_comparator_def by blast

lemma consistent_trans:
  "consistent_comparator cmp \<Longrightarrow> cmp a b \<le> 0 \<Longrightarrow> cmp b c \<le> 0 \<Longrightarrow> cmp a c \<le> 0"
  unfolding consistent_comparator_def by blast

lemma consistent_sym:
  assumes "consistent_comparator cmp"
  shows "cmp a b = 0 \<longleftrightarrow> cmp b a = 0"
  using consistent_anti [OF assms, of a b] consistent_anti [OF assms, of b a]
  by auto

lemma consistent_total:
  assumes "consistent_comparator cmp" and "0 < cmp a b"
  shows "cmp b a \<le> 0"
  using consistent_anti [OF assms(1), of b a] assms(2) by simp

lemma consistent_equiv:
  assumes "consistent_comparator cmp" "cmp a x = 0" "cmp a y = 0"
  shows "cmp x y = 0"
proof -
  have xa: "cmp x a = 0" using consistent_sym [OF assms(1), of a x] assms(2) by simp
  have ya: "cmp y a = 0" using consistent_sym [OF assms(1), of a y] assms(3) by simp
  have le: "cmp x y \<le> 0"
    using consistent_trans [OF assms(1), of x a y] xa assms(3) by simp
  have ge: "cmp y x \<le> 0"
    using consistent_trans [OF assms(1), of y a x] ya assms(2) by simp
  show ?thesis
    using consistent_anti [OF assms(1), of x y] le ge by simp
qed

lemma mset_insert_by: "mset (insert_by cmp x ys) = add_mset x (mset ys)"
  by (induction ys) simp_all

lemma mset_array_sort: "mset (array_sort cmp xs) = mset xs"
  by (induction xs) (simp_all add: array_sort_def mset_insert_by)

lemma set_insert_by: "set (insert_by cmp x ys) = insert x (set ys)"
  by (induction ys) auto

lemma sorted_insert_by:
  assumes "consistent_comparator cmp"
  shows "sorted_wrt (\<lambda>a b. cmp a b \<le> 0) ys \<Longrightarrow> sorted_wrt (\<lambda>a b. cmp a b \<le> 0) (insert_by cmp x ys)"
proof (induction ys)
  case Nil
  then show ?case by simp
next
  case (Cons y ys)
  show ?case
  proof (cases "cmp x y \<le> 0")
    case True
    have "cmp x z \<le> 0" if "z \<in> set ys" for z
      using consistent_trans [OF assms True] Cons.prems that by auto
    with True Cons.prems show ?thesis by auto
  next
    case False
    then have "cmp y x \<le> 0" using consistent_total [OF assms] by simp
    with False Cons show ?thesis by (auto simp: set_insert_by)
  qed
qed

lemma sorted_array_sort:
  "consistent_comparator cmp \<Longrightarrow> sorted_wrt (\<lambda>a b. cmp a b \<le> 0) (array_sort cmp xs)"
  by (induction xs) (simp_all add: array_sort_def sorted_insert_by)

lemma filter_insert_by:
  assumes "consistent_comparator cmp"
  shows "filter (\<lambda>b. cmp a b = 0) (insert_by cmp x ys) =
         (if cmp a x = 0 then x # filter (\<lambda>b. cmp a b = 0) ys else filter (\<lambda>b. cmp a b = 0) ys)"
proof (induction ys)
  case Nil
  show ?case by simp
next
  case (Cons y ys)
  have "cmp x y = 0" if "cmp a x = 0" "cmp a y = 0"
    using consistent_equiv [OF assms that] .
  with Cons show ?case by auto
qed

lemma stable_array_sort:
  "consistent_comparator cmp \<Longrightarrow>
   filter (\<lambda>b. cmp a b = 0) (array_sort cmp xs) = filter (\<lambda>b. cmp a b = 0) xs"
  by (induction xs) (simp_all add: array_sort_def filter_insert_by)

lemma consistent_byNameLength: "consistent_comparator byNameLength"
  by (auto simp: consistent_comparator_def byNameLength_def)

text \<open>
  Claim C8. When the value of the sort control is the label of a registered option whose
  comparator is consistent, the sort step returns the same rows, ordered by the
  comparator, and rows that the comparator ranks equal keep the order they had.
\<close>

theorem sortRows_stable:
  assumes "find (\<lambda>v. label v = el_value (controls p (sorting_element s))) (sorting_options s) = Some srt"
    and "consistent_comparator (compare srt)"
  shows "\<exists>ys. sortRows (Some s) p frs = Inr ys \<and>
           mset ys = mset frs \<and>
           sorted_wrt (\<lambda>a b. compare srt a b \<le> 0) ys \<and>
           (\<forall>a. filter (\<lambda>b. compare srt a b = 0) ys = filter (\<lambda>b. compare srt a b = 0) frs)"
  using assms
  by (simp add: sortRows_def mset_array_sort sorted_array_sort stable_array_sort)

theorem sortRows_stable_witness:
  "find (\<lambda>v. label v = el_value (controls (examplePage ''Name'' []) (sorting_element exampleSorting)))
     (sorting_options exampleSorting) = Some \<lparr>label = ''Name'', compare = byNameLength\<rparr> \<and>
   consistent_comparator byNameLength \<and>
   (\<exists>ys. sortRows (Some exampleSorting) (examplePage ''Name'' [])
           [nameRow ''bob'', nameRow ''al'', nameRow ''eve''] = Inr ys \<and>
         mset ys = mset [nameRow ''bob'', nameRow ''al'', nameRow ''eve''] \<and>
         sorted_wrt (\<lambda>a b. byNameLength a b \<le> 0) ys \<and>
         filter (\<lambda>b. byNameLength (nameRow ''bob'') b = 0) ys = [nameRow ''bob'', nameRow ''eve''])"
proof -
  have f: "find (\<lambda>v. label v = el_value (controls (examplePage ''Name'' []) (sorting_element exampleSorting)))
     (sorting_options exampleSorting) = Some \<lparr>label = ''Name'', compare = byNameLength\<rparr>"
    by (simp add: exampleSorting_def examplePage_def)
  have c: "consistent_comparator (compare \<lparr>label = ''Name'', compare = byNameLength\<rparr>)"
    by (simp add: consistent_byNameLength)
  from sortRows_stable [OF f c, of "[nameRow ''bob'', nameRow ''al'', nameRow ''eve'']"]
  obtain ys where ys: "sortRows (Some exampleSorting) (examplePage ''Name'' [])
           [nameRow ''bob'', nameRow ''al'', nameRow ''eve''] = Inr ys"
     "mset ys = mset [nameRow ''bob'', nameRow ''al'', nameRow ''eve'']"
     "sorted_wrt (\<lambda>a b. byNameLength a b \<le> 0) ys"
     "\<forall>a. filter (\<lambda>b. byNameLength a b = 0) ys
         = filter (\<lambda>b. byNameLength a b = 0) [nameRow ''bob'', nameRow ''al'', nameRow ''eve'']"
    by auto
  from ys(4) have "filter (\<lambda>b. byNameLength (nameRow ''bob'') b = 0) ys
      = filter (\<lambda>b. byNameLength (nameRow ''bob'') b = 0) [nameRow ''bob'', nameRow ''al'', nameRow ''eve'']"
    by blast
  then have "filter (\<lambda>b. byNameLength (nameRow ''bob'') b = 0) ys = [nameRow ''bob'', nameRow ''eve'']"
    by (simp add: byNameLength_def nameRow_def)
  with f consistent_byNameLength ys(1,2,3) show ?thesis by blast
qed

subsection \<open>Rebuilding the options of a bound input\<close>

lemma set_set_add: "set (set_add x s) = insert x (set s)"
  by (auto simp: set_add_def)

lemma distinct_set_add: "distinct s \<Longrightarrow> distinct (set_add x s)"
  by (simp add: set_add_def)

lemma fold_set_add:
  "distinct s \<Longrightarrow>
   distinct (fold (\<lambda>v. set_add (f v)) vs s) \<and>
   set (fold (\<lambda>v. set_add (f v)) vs s) = set s \<union> f ` set vs"
  by (induction vs arbitrary: s) (auto simp: set_set_add distinct_set_add)

lemma collectOptions_step:
  assumes "r col = Some cell" and "distinct opts"
  shows "\<exists>acc. collectOptions col delim (r # rs) opts = collectOptions col delim rs acc \<and>
           distinct acc \<and> set acc = set opts \<union> Some ` set (rowValues col delim r)"
proof (cases delim)
  case None
  with assms show ?thesis
    by (intro exI [of _ "set_add (Some cell) opts"])
       (simp add: rowValues_def set_set_add distinct_set_add)
next
  case (Some d)
  let ?acc = "fold (\<lambda>v. set_add (Some (str_trim v))) (str_split cell d) opts"
  have "distinct ?acc \<and> set ?acc = set opts \<union> (\<lambda>v. Some (str_trim v)) ` set (str_split cell d)"
    using assms(2) by (rule fold_set_add)
  with Some assms(1) show ?thesis
    by (intro exI [of _ ?acc]) (simp add: rowValues_def image_image)
qed

lemma collectOptions_present:
  assumes "\<forall>r \<in> set rs. r col \<noteq> None" and "distinct opts"
  shows "\<exists>opts'. collectOptions col delim rs opts = Inr opts' \<and> distinct opts' \<and>
           set opts' = set opts \<union> Some ` set (columnValues col delim rs)"
  using assms
proof (induction rs arbitrary: opts)
  case Nil
  then show ?case by (simp add: columnValues_def)
next
  case (Cons r rs)
  from Cons.prems obtain cell where cell: "r col = Some cell" by auto
  from collectOptions_step [of r col cell opts delim rs] cell Cons.prems(2)
  obtain acc where acc: "collectOptions col delim (r # rs) opts = collectOptions col delim rs acc"
    "distinct acc" "set acc = set opts \<union> Some ` set (rowValues col delim r)"
    by blast
  from Cons.IH [OF _ acc(2)] Cons.prems(1)
  obtain opts' where o: "collectOptions col delim rs acc = Inr opts'" "distinct opts'"
    "set opts' = set acc \<union> Some ` set (columnValues col delim rs)"
    by auto
  have "set opts' = set opts \<union> Some ` set (columnValues col delim (r # rs))"
    unfolding o(3) acc(3) by (auto simp: columnValues_def)
  with acc(1) o(1,2) show ?case by simp
qed

lemma sort_default_all_Some: "sort_default (map Some vs) = map Some (sort vs)"
  by (simp add: sort_default_def List.map_filter_def comp_def filter_empty_conv)

lemma map_Some_the: "None \<notin> set opts \<Longrightarrow> map Some (map the opts) = opts"
  by (induction opts) auto

lemma el_options_fold_appendChild:
  "el_options (fold (\<lambda>o'. appendChild (f o')) xs el) = el_options el @ map f xs"
  by (induction xs arbitrary: el) (simp_all add: appendChild_def)

lemma option_value_makeOption: "option_value (makeOption (Some v)) = v"
  by (simp add: makeOption_def ToString_def)

lemma option_content_makeOption:
  "option_content (makeOption (Some v)) = InnerHTML (if v = [] then ''Not specified'' else v)"
  by (simp add: makeOption_def ToString_def)

lemma option_values_made:
  "map option_value (map makeOption (Some ''Any'' # map Some vs)) = ''Any'' # vs"
  by (simp add: option_value_makeOption comp_def)

lemma populateInput_collected:
  fixes p :: page and inp :: webSheetInput
  defines "backup \<equiv> (if el_options (controls p (element inp)) = [] then ''Any''
                       else el_value (controls p (element inp)))"
  assumes "collectOptions (column inp) (deliminator inp) rs [] = Inr (map Some us)"
  shows "fst (populateInput (Some rs) inp p) = None"
    and "el_options (controls (snd (populateInput (Some rs) inp p)) (element inp)) =
           map makeOption (Some ''Any'' # map Some (sort us))"
    and "el_value (controls (snd (populateInput (Some rs) inp p)) (element inp)) =
           (if backup \<in> set (''Any'' # us) then backup else ''Any'')"
proof -
  let ?el = "controls p (element inp)"
  let ?filled = "fold (\<lambda>o'. appendChild (makeOption o')) (Some ''Any'' # map Some (sort us))
                   (removeChildren ?el)"
  have fo: "el_options ?filled = map makeOption (Some ''Any'' # map Some (sort us))"
    by (simp only: el_options_fold_appendChild) (simp add: removeChildren_def)
  have "map option_value (el_options ?filled) = ''Any'' # sort us"
    unfolding fo by (rule option_values_made)
  then have "set (map option_value (el_options ?filled)) = set (''Any'' # sort us)"
    by (rule arg_cong)
  then have vals: "option_value ` set (el_options ?filled) = set (''Any'' # us)"
    by simp
  have fnd: "find (\<lambda>o'. option_value o' = v) (el_options ?filled) = None \<longleftrightarrow> v \<notin> set (''Any'' # us)" for v
    unfolding find_eq_None_iff vals [symmetric] by auto
  have any: "''Any'' \<in> option_value ` set (el_options ?filled)"
    unfolding vals by simp
  have pi: "populateInput (Some rs) inp p =
     (None, p\<lparr>controls := (controls p)(element inp :=
        (if find (\<lambda>o'. option_value o' = backup) (el_options ?filled) = None
         then set_value ''Any'' ?filled else set_value backup ?filled))\<rparr>)"
    using assms(2) by (simp add: populateInput_def Let_def sort_default_all_Some backup_def)
  show "fst (populateInput (Some rs) inp p) = None"
    unfolding pi by simp
  show "el_options (controls (snd (populateInput (Some rs) inp p)) (element inp)) =
           map makeOption (Some ''Any'' # map Some (sort us))"
    unfolding pi using fo by (simp add: set_value_def)
  show "el_value (controls (snd (populateInput (Some rs) inp p)) (element inp)) =
           (if backup \<in> set (''Any'' # us) then backup else ''Any'')"
    unfolding pi using fnd [of backup] any vals
    by (simp add: set_value_def)
qed


lemma count_list_distinct: "distinct xs \<Longrightarrow> x \<in> set xs \<Longrightarrow> count_list xs x = 1"
  by (induction xs) auto

lemma populateInput_present:
  assumes "\<forall>r \<in> set rs. r (column inp) \<noteq> None"
  shows "\<exists>us. collectOptions (column inp) (deliminator inp) rs [] = Inr (map Some us) \<and>
           distinct us \<and> set us = set (columnValues (column inp) (deliminator inp) rs)"
proof -
  from collectOptions_present [OF assms, of "[]" "deliminator inp"]
  obtain opts where opts: "collectOptions (column inp) (deliminator inp) rs [] = Inr opts"
    "distinct opts" "set opts = Some ` set (columnValues (column inp) (deliminator inp) rs)"
    by auto
  then have "None \<notin> set opts" by auto
  then have us: "opts = map Some (map the opts)" by (rule map_Some_the [symmetric])
  have d: "distinct (map the opts)"
    using opts(2) us by (metis distinct_map)
  have "Some ` set (map the opts) = Some ` set (columnValues (column inp) (deliminator inp) rs)"
    using opts(3) us by (metis set_map)
  then have s: "set (map the opts) = set (columnValues (column inp) (deliminator inp) rs)"
    by (simp add: inj_image_eq_iff)
  from opts(1) us d s show ?thesis by metis
qed

lemma populateInput_all_present:
  assumes "\<forall>r \<in> set rs. r (column inp) \<noteq> None"
  shows "\<exists>vs. fst (populateInput (Some rs) inp p) = None \<and>
     map option_value (el_options (controls (snd (populateInput (Some rs) inp p)) (element inp)))
       = ''Any'' # vs \<and>
     sorted vs \<and> distinct vs \<and>
     set vs = set (columnValues (column inp) (deliminator inp) rs) \<and>
     el_value (controls (snd (populateInput (Some rs) inp p)) (element inp)) =
       (let selectionBackup =
              (if el_options (controls p (element inp)) = [] then ''Any''
               else el_value (controls p (element inp)))
        in if selectionBackup \<in> set (''Any'' # vs) then selectionBackup else ''Any'')"
proof -
  from populateInput_present [OF assms]
  obtain us where us: "collectOptions (column inp) (deliminator inp) rs [] = Inr (map Some us)"
    "distinct us" "set us = set (columnValues (column inp) (deliminator inp) rs)"
    by blast
  note r = populateInput_collected [OF us(1), of p]
  have opts: "map option_value
      (el_options (controls (snd (populateInput (Some rs) inp p)) (element inp))) = ''Any'' # sort us"
    unfolding r(2) by (rule option_values_made)
  have srt: "sorted (sort us)" and dst: "distinct (sort us)"
    and st: "set (sort us) = set (columnValues (column inp) (deliminator inp) rs)"
    using us(2,3) by simp_all
  have sel: "el_value (controls (snd (populateInput (Some rs) inp p)) (element inp)) =
       (let selectionBackup =
              (if el_options (controls p (element inp)) = [] then ''Any''
               else el_value (controls p (element inp)))
        in if selectionBackup \<in> set (''Any'' # sort us) then selectionBackup else ''Any'')"
    unfolding r(3) by (simp add: Let_def)
  show ?thesis
    by (intro exI [of _ "sort us"] conjI r(1) opts srt dst st sel)
qed

lemma collectOptions_undelimited:
  "distinct opts \<Longrightarrow>
   \<exists>opts'. collectOptions col None rs opts = Inr opts' \<and> distinct opts' \<and>
           set opts' = set opts \<union> {v. \<exists>r \<in> set rs. r col = v}"
proof (induction rs arbitrary: opts)
  case Nil
  then show ?case by simp
next
  case (Cons r rs)
  have "distinct (set_add (r col) opts)" using Cons.prems by (rule distinct_set_add)
  from Cons.IH [OF this]
  obtain opts' where "collectOptions col None rs (set_add (r col) opts) = Inr opts'"
    "distinct opts'" "set opts' = set (set_add (r col) opts) \<union> {v. \<exists>r \<in> set rs. r col = v}"
    by blast
  then show ?case by (auto simp: set_set_add)
qed

lemma collectOptions_throws:
  "r \<in> set rs \<Longrightarrow> r col = None \<Longrightarrow> collectOptions col (Some d) rs opts = Inl TypeError"
  by (induction rs arbitrary: opts) (auto split: option.splits)

lemma filter_None_distinct:
  "distinct opts \<Longrightarrow> filter (\<lambda>x. x = None) opts = (if None \<in> set opts then [None] else [])"
  by (induction opts) (auto simp: filter_empty_conv)

lemma set_map_filter_id: "set (List.map_filter (\<lambda>x. x) opts) = {s. Some s \<in> set opts}"
  by (induction opts) (auto simp: List.map_filter_def)

lemma distinct_map_filter_id: "distinct opts \<Longrightarrow> distinct (List.map_filter (\<lambda>x. x) opts)"
  by (induction opts) (auto simp: List.map_filter_def)

lemma set_columnValues_undelimited:
  "set (columnValues col None rs) = {s. \<exists>r \<in> set rs. r col = Some s}"
  by (auto simp: columnValues_def rowValues_def split: option.splits)

lemma option_value_makeOption_ToString: "option_value (makeOption v) = ToString v"
  by (simp add: makeOption_def)

lemma populateInput_collected_any:
  fixes p :: page and inp :: webSheetInput
  defines "backup \<equiv> (if el_options (controls p (element inp)) = [] then ''Any''
                       else el_value (controls p (element inp)))"
  assumes "collectOptions (column inp) (deliminator inp) rs [] = Inr opts"
  shows "fst (populateInput (Some rs) inp p) = None"
    and "map option_value (el_options (controls (snd (populateInput (Some rs) inp p)) (element inp))) =
           ''Any'' # map ToString (sort_default opts)"
    and "el_value (controls (snd (populateInput (Some rs) inp p)) (element inp)) =
           (if backup \<in> set (''Any'' # map ToString (sort_default opts)) then backup else ''Any'')"
proof -
  let ?el = "controls p (element inp)"
  let ?filled = "fold (\<lambda>o'. appendChild (makeOption o')) (Some ''Any'' # sort_default opts)
                   (removeChildren ?el)"
  have fo: "el_options ?filled = map makeOption (Some ''Any'' # sort_default opts)"
    by (simp only: el_options_fold_appendChild) (simp add: removeChildren_def)
  have vs: "map option_value (el_options ?filled) = ''Any'' # map ToString (sort_default opts)"
    unfolding fo by (simp add: option_value_makeOption_ToString comp_def ToString_def)
  have vals: "option_value ` set (el_options ?filled) = set (''Any'' # map ToString (sort_default opts))"
    using arg_cong [OF vs, of set] by (simp only: set_map)
  have fnd: "find (\<lambda>o'. option_value o' = v) (el_options ?filled) = None \<longleftrightarrow>
      v \<notin> set (''Any'' # map ToString (sort_default opts))" for v
    unfolding find_eq_None_iff vals [symmetric] by auto
  have any: "''Any'' \<in> option_value ` set (el_options ?filled)"
    unfolding vals by simp
  have pi: "populateInput (Some rs) inp p =
     (None, p\<lparr>controls := (controls p)(element inp :=
        (if find (\<lambda>o'. option_value o' = backup) (el_options ?filled) = None
         then set_value ''Any'' ?filled else set_value backup ?filled))\<rparr>)"
    using assms(2) by (simp add: populateInput_def Let_def backup_def)
  show "fst (populateInput (Some rs) inp p) = None"
    unfolding pi by simp
  show "map option_value (el_options (controls (snd (populateInput (Some rs) inp p)) (element inp))) =
           ''Any'' # map ToString (sort_default opts)"
    unfolding pi using vs by (simp add: set_value_def)
  show "el_value (controls (snd (populateInput (Some rs) inp p)) (element inp)) =
           (if backup \<in> set (''Any'' # map ToString (sort_default opts)) then backup else ''Any'')"
    unfolding pi using fnd [of backup] any vals
    by (simp add: set_value_def)
qed

lemma populateInput_throws:
  assumes "deliminator inp = Some d" and "r \<in> set rs" and "r (column inp) = None"
  shows "populateInput (Some rs) inp p = (Some TypeError, p)"
  using collectOptions_throws [OF assms(2,3), of d "[]"] assms(1)
  by (simp add: populateInput_def Let_def)

lemma populateInput_undelimited:
  assumes "deliminator inp = None"
  shows "\<exists>vs. fst (populateInput (Some rs) inp p) = None \<and>
     map option_value (el_options (controls (snd (populateInput (Some rs) inp p)) (element inp)))
       = ''Any'' # vs @ (if \<exists>r \<in> set rs. r (column inp) = None then [''undefined''] else []) \<and>
     sorted vs \<and> distinct vs \<and>
     set vs = set (columnValues (column inp) None rs) \<and>
     el_value (controls (snd (populateInput (Some rs) inp p)) (element inp)) =
       (let selectionBackup =
              (if el_options (controls p (element inp)) = [] then ''Any''
               else el_value (controls p (element inp)))
        in if selectionBackup \<in> set (''Any'' # vs @
                (if \<exists>r \<in> set rs. r (column inp) = None then [''undefined''] else []))
           then selectionBackup else ''Any'')"
proof -
  from collectOptions_undelimited [of "[]" "column inp" rs]
  obtain opts where opts: "collectOptions (column inp) None rs [] = Inr opts" "distinct opts"
    "set opts = {v. \<exists>r \<in> set rs. r (column inp) = v}"
    by auto
  let ?vs = "sort (List.map_filter (\<lambda>x. x) opts)"
  let ?tail = "if \<exists>r \<in> set rs. r (column inp) = None then [''undefined''] else []"
  have mem: "None \<in> set opts \<longleftrightarrow> (\<exists>r \<in> set rs. r (column inp) = None)"
    unfolding opts(3) by simp
  have sd: "map ToString (sort_default opts) = ?vs @ ?tail"
    unfolding sort_default_def filter_None_distinct [OF opts(2)] mem
    by (simp add: ToString_def comp_def)
  have c: "collectOptions (column inp) (deliminator inp) rs [] = Inr opts"
    using opts(1) assms by simp
  note r = populateInput_collected_any [OF c, of p, unfolded sd]
  have srt: "sorted ?vs" by simp
  have dst: "distinct ?vs" using opts(2) by (simp add: distinct_map_filter_id)
  have st: "set ?vs = set (columnValues (column inp) None rs)"
    unfolding set_columnValues_undelimited
    by (simp add: set_map_filter_id opts(3))
  have sel: "el_value (controls (snd (populateInput (Some rs) inp p)) (element inp)) =
       (let selectionBackup =
              (if el_options (controls p (element inp)) = [] then ''Any''
               else el_value (controls p (element inp)))
        in if selectionBackup \<in> set (''Any'' # ?vs @ ?tail) then selectionBackup else ''Any'')"
    unfolding r(3) Let_def by (rule refl)
  show ?thesis
    by (intro exI [of _ ?vs] conjI r(1) r(2) srt dst st sel)
qed

text \<open>
  Claim C9, as amended. On rows that all have a cell in the input's column, the rebuild
  succeeds and leaves on the control the options "Any" followed by the distinct column
  values (the whole cell without a delimiter, else every trimmed split segment) in
  increasing order of their code units; the selection is the one captured before the
  rebuild ("Any" when the control had no option) if it is among the new options, and
  "Any" otherwise. When some row has no cell in the column: without a delimiter the
  rebuild succeeds all the same, and the options are "Any", the sorted distinct values of
  the cells there are, and last one option with the value "undefined"; with a delimiter
  the rebuild throws a \<open>TypeError\<close> and the page stays as it was.
\<close>

theorem populateInput_rebuilds_options:
  "((\<forall>r \<in> set rs. r (column inp) \<noteq> None) \<longrightarrow>
      (\<exists>vs. fst (populateInput (Some rs) inp p) = None \<and>
         map option_value (el_options (controls (snd (populateInput (Some rs) inp p)) (element inp)))
           = ''Any'' # vs \<and>
         sorted vs \<and> distinct vs \<and>
         set vs = set (columnValues (column inp) (deliminator inp) rs) \<and>
         el_value (controls (snd (populateInput (Some rs) inp p)) (element inp)) =
           (let selectionBackup =
                  (if el_options (controls p (element inp)) = [] then ''Any''
                   else el_value (controls p (element inp)))
            in if selectionBackup \<in> set (''Any'' # vs) then selectionBackup else ''Any''))) \<and>
   (deliminator inp = None \<longrightarrow>
      (\<exists>vs. fst (populateInput (Some rs) inp p) = None \<and>
         map option_value (el_options (controls (snd (populateInput (Some rs) inp p)) (element inp)))
           = ''Any'' # vs @ (if \<exists>r \<in> set rs. r (column inp) = None then [''undefined''] else []) \<and>
         sorted vs \<and> distinct vs \<and>
         set vs = set (columnValues (column inp) None rs) \<and>
         el_value (controls (snd (populateInput (Some rs) inp p)) (element inp)) =
           (let selectionBackup =
                  (if el_options (controls p (element inp)) = [] then ''Any''
                   else el_value (controls p (element inp)))
            in if selectionBackup \<in> set (''Any'' # vs @
                    (if \<exists>r \<in> set rs. r (column inp) = None then [''undefined''] else []))
               then selectionBackup else ''Any''))) \<and>
   (deliminator inp \<noteq> None \<and> (\<exists>r \<in> set rs. r (column inp) = None) \<longrightarrow>
      populateInput (Some rs) inp p = (Some TypeError, p))"
proof (intro conjI impI)
  assume "\<forall>r \<in> set rs. r (column inp) \<noteq> None"
  then show "\<exists>vs. fst (populateInput (Some rs) inp p) = None \<and>
         map option_value (el_options (controls (snd (populateInput (Some rs) inp p)) (element inp)))
           = ''Any'' # vs \<and>
         sorted vs \<and> distinct vs \<and>
         set vs = set (columnValues (column inp) (deliminator inp) rs) \<and>
         el_value (controls (snd (populateInput (Some rs) inp p)) (element inp)) =
           (let selectionBackup =
                  (if el_options (controls p (element inp)) = [] then ''Any''
                   else el_value (controls p (element inp)))
            in if selectionBackup \<in> set (''Any'' # vs) then selectionBackup else ''Any'')"
    by (rule populateInput_all_present)
next
  assume "deliminator inp = None"
  then show "\<exists>vs. fst (populateInput (Some rs) inp p) = None \<and>
         map option_value (el_options (controls (snd (populateInput (Some rs) inp p)) (element inp)))
           = ''Any'' # vs @ (if \<exists>r \<in> set rs. r (column inp) = None then [''undefined''] else []) \<and>
         sorted vs \<and> distinct vs \<and>
         set vs = set (columnValues (column inp) None rs) \<and>
         el_value (controls (snd (populateInput (Some rs) inp p)) (element inp)) =
           (let selectionBackup =
                  (if el_options (controls p (element inp)) = [] then ''Any''
                   else el_value (controls p (element inp)))
            in if selectionBackup \<in> set (''Any'' # vs @
                    (if \<exists>r \<in> set rs. r (column inp) = None then [''undefined''] else []))
               then selectionBackup else ''Any'')"
    by (rule populateInput_undelimited)
next
  assume "deliminator inp \<noteq> None \<and> (\<exists>r \<in> set rs. r (column inp) = None)"
  then obtain d r where "deliminator inp = Some d" "r \<in> set rs" "r (column inp) = None"
    by auto
  then show "populateInput (Some rs) inp p = (Some TypeError, p)"
    by (rule populateInput_throws)
qed

text \<open>
  The values x, y, x give the options Any, x, y, keep the selection y and reset the
  selection z; the cells "b , a" and "a,c" with the delimiter "," give Any, a, b, c; a
  row without the cell gives a last option "undefined" without a delimiter and an
  exception with one.
\<close>

theorem populateInput_rebuilds_options_witness:
  "map option_value (el_options (controls (snd (populateInput
       (Some [tagRow ''x'', tagRow ''y'', tagRow ''x'']) (tagInput None)
       (examplePage ''y'' [\<lparr>option_value = ''Any'', option_content = InnerHTML ''Any''\<rparr>]))) 0))
     = [''Any'', ''x'', ''y''] \<and>
   el_value (controls (snd (populateInput
       (Some [tagRow ''x'', tagRow ''y'', tagRow ''x'']) (tagInput None)
       (examplePage ''y'' [\<lparr>option_value = ''Any'', option_content = InnerHTML ''Any''\<rparr>]))) 0) = ''y'' \<and>
   el_value (controls (snd (populateInput
       (Some [tagRow ''x'', tagRow ''y'', tagRow ''x'']) (tagInput None)
       (examplePage ''z'' [\<lparr>option_value = ''Any'', option_content = InnerHTML ''Any''\<rparr>]))) 0) = ''Any'' \<and>
   map option_value (el_options (controls (snd (populateInput
       (Some [tagRow ''b , a'', tagRow ''a,c'']) (tagInput (Some '',''))
       (examplePage ''c'' [\<lparr>option_value = ''Any'', option_content = InnerHTML ''Any''\<rparr>]))) 0))
     = [''Any'', ''a'', ''b'', ''c''] \<and>
   el_value (controls (snd (populateInput
       (Some [tagRow ''b , a'', tagRow ''a,c'']) (tagInput (Some '',''))
       (examplePage ''c'' [\<lparr>option_value = ''Any'', option_content = InnerHTML ''Any''\<rparr>]))) 0) = ''c'' \<and>
   map option_value (el_options (controls (snd (populateInput
       (Some [tagRow ''y'', nameRow ''Alice'', tagRow ''x'']) (tagInput None)
       (examplePage [] []))) 0))
     = [''Any'', ''x'', ''y'', ''undefined''] \<and>
   populateInput (Some [tagRow ''y'', nameRow ''Alice'']) (tagInput (Some '','')) (examplePage ''y'' [])
     = (Some TypeError, examplePage ''y'' [])"
proof -
  let ?any = "[\<lparr>option_value = ''Any'', option_content = InnerHTML ''Any''\<rparr>]"
  have proj: "element (tagInput delim) = 0" "column (tagInput delim) = ''tag''"
    "deliminator (tagInput delim) = delim" for delim
    by (simp_all add: tagInput_def)
  have unique: "vs = ws" if "sorted vs" "distinct vs" "set vs = set ws" "sorted ws" "distinct ws"
    for vs ws :: "string list"
    using that by (intro sorted_distinct_set_unique)
  note all_present = populateInput_rebuilds_options [THEN conjunct1, THEN mp]
  note undelimited = populateInput_rebuilds_options [THEN conjunct2, THEN conjunct1, THEN mp]
  note throws = populateInput_rebuilds_options [THEN conjunct2, THEN conjunct2, THEN mp]

  let ?xyx = "[tagRow ''x'', tagRow ''y'', tagRow ''x'']"
  have xyx_present: "\<forall>r \<in> set ?xyx. r (column (tagInput None)) \<noteq> None"
    by (simp add: tagRow_def proj)
  have xyx_vals: "set (columnValues ''tag'' None ?xyx) = set [''x'', ''y'']"
    by (auto simp: columnValues_def rowValues_def tagRow_def)
  have y: "map option_value (el_options (controls (snd (populateInput (Some ?xyx) (tagInput None)
             (examplePage ''y'' ?any))) 0)) = [''Any'', ''x'', ''y''] \<and>
           el_value (controls (snd (populateInput (Some ?xyx) (tagInput None)
             (examplePage ''y'' ?any))) 0) = ''y''"
  proof -
    from all_present [OF xyx_present, of "examplePage ''y'' ?any", unfolded proj xyx_vals]
    obtain vs where vs:
      "map option_value (el_options (controls (snd (populateInput (Some ?xyx) (tagInput None)
          (examplePage ''y'' ?any))) 0)) = ''Any'' # vs"
      "sorted vs" "distinct vs" "set vs = set [''x'', ''y'']"
      "el_value (controls (snd (populateInput (Some ?xyx) (tagInput None)
          (examplePage ''y'' ?any))) 0) =
       (let selectionBackup =
              (if el_options (controls (examplePage ''y'' ?any) 0) = [] then ''Any''
               else el_value (controls (examplePage ''y'' ?any) 0))
        in if selectionBackup \<in> set (''Any'' # vs) then selectionBackup else ''Any'')"
      by (elim exE conjE) (erule meta_allE, erule meta_impE, assumption+)
    have "vs = [''x'', ''y'']" using vs(2,3,4) by (rule unique) simp_all
    with vs(1,5) show ?thesis by (simp add: examplePage_def)
  qed
  have z: "el_value (controls (snd (populateInput (Some ?xyx) (tagInput None)
             (examplePage ''z'' ?any))) 0) = ''Any''"
  proof -
    from all_present [OF xyx_present, of "examplePage ''z'' ?any", unfolded proj xyx_vals]
    obtain vs where vs:
      "sorted vs" "distinct vs" "set vs = set [''x'', ''y'']"
      "el_value (controls (snd (populateInput (Some ?xyx) (tagInput None)
          (examplePage ''z'' ?any))) 0) =
       (let selectionBackup =
              (if el_options (controls (examplePage ''z'' ?any) 0) = [] then ''Any''
               else el_value (controls (examplePage ''z'' ?any) 0))
        in if selectionBackup \<in> set (''Any'' # vs) then selectionBackup else ''Any'')"
      by (elim exE conjE) (erule meta_allE, erule meta_impE, assumption+)
    have "vs = [''x'', ''y'']" using vs(1,2,3) by (rule unique) simp_all
    with vs(4) show ?thesis by (simp add: examplePage_def)
  qed

  let ?del = "[tagRow ''b , a'', tagRow ''a,c'']"
  have splits: "str_split ''b , a'' '','' = [''b '', '' a'']" "str_split ''a,c'' '','' = [''a'', ''c'']"
    by (simp_all add: str_split_def)
  have trims: "str_trim ''b '' = ''b''" "str_trim '' a'' = ''a''" "str_trim ''a'' = ''a''"
    "str_trim ''c'' = ''c''"
    by (simp_all add: str_trim_def isWhiteSpace_def)
  have del_present: "\<forall>r \<in> set ?del. r (column (tagInput (Some '',''))) \<noteq> None"
    by (simp add: tagRow_def proj)
  have del_vals: "set (columnValues ''tag'' (Some '','') ?del) = set [''a'', ''b'', ''c'']"
    by (auto simp: columnValues_def rowValues_def tagRow_def splits trims)
  have c: "map option_value (el_options (controls (snd (populateInput (Some ?del)
             (tagInput (Some '','')) (examplePage ''c'' ?any))) 0)) = [''Any'', ''a'', ''b'', ''c''] \<and>
           el_value (controls (snd (populateInput (Some ?del) (tagInput (Some '',''))
             (examplePage ''c'' ?any))) 0) = ''c''"
  proof -
    from all_present [OF del_present, of "examplePage ''c'' ?any", unfolded proj del_vals]
    obtain vs where vs:
      "map option_value (el_options (controls (snd (populateInput (Some ?del) (tagInput (Some '',''))
          (examplePage ''c'' ?any))) 0)) = ''Any'' # vs"
      "sorted vs" "distinct vs" "set vs = set [''a'', ''b'', ''c'']"
      "el_value (controls (snd (populateInput (Some ?del) (tagInput (Some '',''))
          (examplePage ''c'' ?any))) 0) =
       (let selectionBackup =
              (if el_options (controls (examplePage ''c'' ?any) 0) = [] then ''Any''
               else el_value (controls (examplePage ''c'' ?any) 0))
        in if selectionBackup \<in> set (''Any'' # vs) then selectionBackup else ''Any'')"
      by (elim exE conjE) (erule meta_allE, erule meta_impE, assumption+)
    have "vs = [''a'', ''b'', ''c'']" using vs(2,3,4) by (rule unique) simp_all
    with vs(1,5) show ?thesis by (simp add: examplePage_def)
  qed

  let ?gap = "[tagRow ''y'', nameRow ''Alice'', tagRow ''x'']"
  have gap_vals: "set (columnValues ''tag'' None ?gap) = set [''x'', ''y'']"
    by (auto simp: columnValues_def rowValues_def tagRow_def nameRow_def)
  have gap_missing: "\<exists>r \<in> set ?gap. r ''tag'' = None"
    by (simp add: nameRow_def)
  have u: "map option_value (el_options (controls (snd (populateInput (Some ?gap) (tagInput None)
             (examplePage [] []))) 0)) = [''Any'', ''x'', ''y'', ''undefined'']"
  proof -
    from undelimited [of "tagInput None" ?gap "examplePage [] []", unfolded proj gap_vals, OF refl]
    obtain vs where vs:
      "map option_value (el_options (controls (snd (populateInput (Some ?gap) (tagInput None)
          (examplePage [] []))) 0)) =
        ''Any'' # vs @ (if \<exists>r \<in> set ?gap. r ''tag'' = None then [''undefined''] else [])"
      "sorted vs" "distinct vs" "set vs = set [''x'', ''y'']"
      by (elim exE conjE) (erule meta_allE, erule meta_impE, assumption+)
    have "vs = [''x'', ''y'']" using vs(2,3,4) by (rule unique) simp_all
    with vs(1) gap_missing show ?thesis by (simp only: if_True append.simps)
  qed

  have t: "populateInput (Some [tagRow ''y'', nameRow ''Alice'']) (tagInput (Some '',''))
      (examplePage ''y'' []) = (Some TypeError, examplePage ''y'' [])"
    by (rule throws) (simp add: proj nameRow_def)
  from y z c u t show ?thesis by simp
qed

text \<open>
  Claim C9 as stated fails on a row set with a row that has no cell in the column:
  without a delimiter the options are Any, x, zzz, undefined, which is not "Any" followed
  by the sorted column values, and with a delimiter there is no rebuild.
\<close>

theorem populateInput_missing_cell:
  "map option_value (el_options (controls (snd (populateInput
       (Some [tagRow ''x'', nameRow ''Alice'', tagRow ''zzz'']) (tagInput None)
       (examplePage [] []))) 0))
     = [''Any'', ''x'', ''zzz'', ''undefined''] \<and>
   fst (populateInput (Some [tagRow ''x'', nameRow ''Alice'', tagRow ''zzz''])
       (tagInput (Some '','')) (examplePage [] [])) = Some TypeError"
  by code_simp

text \<open>
  Claim C10. When a column value is the string "Any" itself (a whole cell, or a trimmed
  segment of a delimited cell), the rebuilt list of option values holds "Any" twice: the
  sentinel in front and the value from the data. The list is then not free of duplicates.
\<close>

theorem populateInput_repeats_Any:
  assumes "\<forall>r \<in> set rs. r (column inp) \<noteq> None"
    and "''Any'' \<in> set (columnValues (column inp) (deliminator inp) rs)"
  shows "fst (populateInput (Some rs) inp p) = None \<and>
     count_list (map option_value
       (el_options (controls (snd (populateInput (Some rs) inp p)) (element inp)))) ''Any'' = 2 \<and>
     \<not> distinct (map option_value
       (el_options (controls (snd (populateInput (Some rs) inp p)) (element inp))))"
proof -
  from populateInput_present [OF assms(1)]
  obtain us where us: "collectOptions (column inp) (deliminator inp) rs [] = Inr (map Some us)"
    "distinct us" "set us = set (columnValues (column inp) (deliminator inp) rs)"
    by blast
  note r = populateInput_collected [OF us(1), of p]
  have opts: "map option_value
      (el_options (controls (snd (populateInput (Some rs) inp p)) (element inp))) = ''Any'' # sort us"
    unfolding r(2) by (rule option_values_made)
  have mem: "''Any'' \<in> set (sort us)" using assms(2) us(3) by simp
  have "distinct (sort us)" using us(2) by simp
  then have "count_list (sort us) ''Any'' = 1" using mem by (rule count_list_distinct)
  with r(1) mem show ?thesis unfolding opts by simp
qed

theorem populateInput_repeats_Any_witness:
  "''Any'' \<in> set (columnValues ''tag'' (Some '','') [tagRow ''red, Any'', tagRow ''blue'']) \<and>
   fst (populateInput (Some [tagRow ''red, Any'', tagRow ''blue'']) (tagInput (Some '',''))
          (examplePage [] [])) = None \<and>
   count_list (map option_value (el_options (controls (snd (populateInput
       (Some [tagRow ''red, Any'', tagRow ''blue'']) (tagInput (Some '',''))
       (examplePage [] []))) 0))) ''Any'' = 2 \<and>
   \<not> distinct (map option_value (el_options (controls (snd (populateInput
       (Some [tagRow ''red, Any'', tagRow ''blue'']) (tagInput (Some '',''))
       (examplePage [] []))) 0)))"
proof -
  let ?rs = "[tagRow ''red, Any'', tagRow ''blue'']"
  have split: "str_split ''red, Any'' '','' = [''red'', '' Any'']"
    by (simp add: str_split_def)
  have trim: "str_trim '' Any'' = ''Any''"
    by (simp add: str_trim_def isWhiteSpace_def)
  have mem: "''Any'' \<in> set (columnValues ''tag'' (Some '','') ?rs)"
    by (simp add: columnValues_def rowValues_def tagRow_def split trim)
  have present: "\<forall>r \<in> set ?rs. r (column (tagInput (Some '',''))) \<noteq> None"
    by (simp add: tagRow_def tagInput_def)
  have proj: "column (tagInput (Some '','')) = ''tag''"
    "deliminator (tagInput (Some '','')) = Some '',''" "element (tagInput (Some '','')) = 0"
    by (simp_all add: tagInput_def)
  from populateInput_repeats_Any [OF present, of "examplePage [] []"] mem
  show ?thesis unfolding proj by simp
qed

end
